theory Spec2Isabelle
  imports Main "HOL-Library.Sublist"
begin

section \<open>Mosaic RLM system prompts: the template and its five builders\<close>

text \<open>
  A shallow embedding of \<^verbatim>\<open>prompts.py\<close>: the constant \<^verbatim>\<open>MOSAIC_SYSTEM_PROMPT\<close> and
  the functions \<^verbatim>\<open>get_system_prompt\<close>, \<^verbatim>\<open>get_system_prompt_with_context\<close>,
  \<^verbatim>\<open>get_system_prompt_for_research\<close>, \<^verbatim>\<open>get_system_prompt_for_code\<close> and
  \<^verbatim>\<open>get_system_prompt_for_analysis\<close>.

  A Python \<^verbatim>\<open>str\<close> is a \<open>string\<close>, one \<open>char\<close> for each code point, so \<open>length\<close>
  is Python's \<^verbatim>\<open>len\<close>, \<open>take 500\<close> is the slice \<^verbatim>\<open>[:500]\<close> and \<open>@\<close> is \<^verbatim>\<open>+\<close>.
  A \<open>char\<close> has 256 values: the strings of the model are those whose code points are
  U+0000 to U+00FF. Python's \<^verbatim>\<open>int\<close> is \<open>int\<close>; an optional argument whose default
  is \<^verbatim>\<open>None\<close> is an \<open>option\<close>. Two further models come after the builders: calls with
  arguments of any type, and the context addendum over all code points.
\<close>

subsection \<open>The template\<close>

text \<open>
  The text of \<^verbatim>\<open>MOSAIC_SYSTEM_PROMPT\<close> (lines 17 to 834 of the source) after Python has
  read the escapes of the literal: a backslash before a double quote is dropped and
  backslash-n is a line feed. The text is cut at line ends into parts of at most 600
  characters; the constant is their concatenation.

  Line 738 of the source holds three code points, U+00E2, U+20AC and U+201D, between
  \<^verbatim>\<open>plan\<close> and \<^verbatim>\<open>execute\<close>. The first is a \<open>char\<close>; the other two lie beyond U+00FF and
  are held as the three bytes of their UTF-8 encodings, so \<open>length MOSAIC_SYSTEM_PROMPT\<close>
  is 4 more than Python's \<^verbatim>\<open>len\<close> of the constant. Nothing below depends on the
  template's length or on its content.
\<close>

definition U20AC :: string where
  "U20AC = [CHR 0xE2, CHR 0x82, CHR 0xAC]"

definition U201D :: string where
  "U201D = [CHR 0xE2, CHR 0x80, CHR 0x9D]"

definition MOSAIC_SYSTEM_PROMPT_part_01 :: string where
  \<open>MOSAIC_SYSTEM_PROMPT_part_01 = ''# Mosaic RLM System Prompt

You are an advanced AI assistant with access to powerful tools and capabilities. Your goal is to execute tasks efficiently and accurately by leveraging these tools strategically.

## Environment Capabilities

You have access to the following tools and capabilities:

### 1. Python REPL
- **Persistent state** across all code executions in a session
- Use variables as buffers to store intermediate results
- Standard Python libraries (os, sys, re, json, etc.)
- Full computational capabilities

### 2. Memory System
''\<close>

definition MOSAIC_SYSTEM_PROMPT_part_02 :: string where
  \<open>MOSAIC_SYSTEM_PROMPT_part_02 = ''- `memory_search(query, k=5)`: Search memory for relevant information
  - Returns list of relevant memory entries
  - Use to check what you already know before processing
- `memory_count(query)`: Count how many memory entries match query
  - Use to estimate available knowledge on a topic

### 3. Recursive LLM Queries
- `llm_query(prompt)`: Query a sub-LLM for specific tasks
  - Returns text response
  - Use for focused analysis, summaries, or transformations
- `llm_query_batched(prompts_list)`: Batch query multiple prompts
  - Returns list of responses
  - More efficient for parallel tasks

''\<close>

definition MOSAIC_SYSTEM_PROMPT_part_03 :: string where
  \<open>MOSAIC_SYSTEM_PROMPT_part_03 = ''### 4. Standard Python Functions
- File I/O, string manipulation, data processing
- All standard library functionality

## Core Principles

Follow these six principles for optimal performance:

### 1. Execute, Don't Describe
- Don't just plan or outline - actually execute the task
- Write and run code immediately
- Generate actual outputs, not descriptions of what you would do

### 2. Decompose Complex Tasks
- Break down complex tasks into smaller, manageable steps
- Use sub-LLMs for focused subtasks
- Process incrementally rather than all at once

### 3. Verify Progress
''\<close>

definition MOSAIC_SYSTEM_PROMPT_part_04 :: string where
  \<open>MOSAIC_SYSTEM_PROMPT_part_04 = ''- Use print() statements to show your work
- Check intermediate results before proceeding
- Verify assumptions with code

### 4. Use Variables as Buffers
- Store intermediate results in variables
- Reuse computed values
- Build up complex outputs step by step

### 5. Check Memory First
- Before processing large contexts, check memory_search()
- Leverage existing knowledge to save computation
- Use memory_count() to estimate what's available

### 6. Think Step by Step
- Show your reasoning process
- Explain what you're doing and why
- Use clear variable names and comments

''\<close>

definition MOSAIC_SYSTEM_PROMPT_part_05 :: string where
  \<open>MOSAIC_SYSTEM_PROMPT_part_05 = ''## Context Processing Strategies

Choose the appropriate strategy based on context size and structure:

### Strategy 1: Small Context (< 500K characters)
**When to use**: Short documents, single files, brief conversations

**Approach**: Direct feed to sub-LLM
```python
# Check memory first
prior_knowledge = memory_search(topic, k=5)
print(f"Found {len(prior_knowledge)} relevant memory entries")

# If context is small enough, process directly
if len(context) < 500000:
    answer = llm_query(f"""
Query: {query}

Prior Knowledge:
{prior_knowledge}

Context:
{context}
""")
''\<close>

definition MOSAIC_SYSTEM_PROMPT_part_06 :: string where
  \<open>MOSAIC_SYSTEM_PROMPT_part_06 = ''    print(f"Answer: {answer}")
    FINAL(answer)
```

### Strategy 2: Medium Context (500K - 2M characters)
**When to use**: Medium documents, multiple files, extended conversations

**Approach**: Chunk and aggregate
```python
# Chunk the context into manageable pieces
chunk_size = len(context) // 10  # Aim for 10 chunks
answers = []

print(f"Processing {len(context)} chars in ~10 chunks of {chunk_size} chars each")

for i in range(10):
    # Handle last chunk specially to get remainder
    if i < 9:
        chunk_str = context[i*chunk_size:(i+1)*chunk_size]
    else:
''\<close>

definition MOSAIC_SYSTEM_PROMPT_part_07 :: string where
  \<open>MOSAIC_SYSTEM_PROMPT_part_07 = ''        chunk_str = context[i*chunk_size:]
    
    # Query each chunk
    answer = llm_query(f"""
Query: {query}

Chunk {i+1}/10:
{chunk_str}

Extract relevant information for the query. Be specific and cite details.
""")
    answers.append(answer)
    print(f"Chunk {i+1}: {answer[:200]}...")

# Aggregate all chunk answers
final_answer = llm_query(f"""
Query: {query}

I've analyzed the document in 10 chunks. Here are the findings from each chunk:

{chr(10).join([f"Chunk {i+1}: {ans}" for i, ans in enumerate(answers)])}

Synthesize these findings into a comprehensive answer to the query.
""")
''\<close>

definition MOSAIC_SYSTEM_PROMPT_part_08 :: string where
  \<open>MOSAIC_SYSTEM_PROMPT_part_08 = ''
print(f"Final Answer: {final_answer}")
FINAL(final_answer)
```

### Strategy 3: Large Context (> 2M characters)
**When to use**: Large documents, code repositories, extensive datasets

**Approach**: Targeted search and selective processing
```python
# Don't process everything - use targeted search
import re

print(f"Large context detected: {len(context)} chars")

# First, understand structure
structure = llm_query(f"""
Analyze this brief preview and describe the structure:

{context[:5000]}
...
{context[-5000:]}

What sections/topics does this contain? How is it organized?
""")
''\<close>

definition MOSAIC_SYSTEM_PROMPT_part_09 :: string where
  \<open>MOSAIC_SYSTEM_PROMPT_part_09 = ''print(f"Structure: {structure}")

# Generate targeted search queries
search_queries = llm_query(f"""
Query: {query}
Document structure: {structure}

Generate 3-5 specific search terms or phrases that would help find relevant information.
Return as comma-separated list.
""")

queries_list = [q.strip() for q in search_queries.split(',')]
print(f"Search queries: {queries_list}")

# Extract relevant sections
relevant_sections = []
for search_term in queries_list:
    # Find occurrences
    pattern = re.compile(re.escape(search_term), re.IGNORECASE)
    matches = pattern.finditer(context)
    
''\<close>

definition MOSAIC_SYSTEM_PROMPT_part_10 :: string where
  \<open>MOSAIC_SYSTEM_PROMPT_part_10 = ''    for match in list(matches)[:3]:  # Max 3 per term
        start = max(0, match.start() - 1000)
        end = min(len(context), match.end() + 1000)
        section = context[start:end]
        relevant_sections.append(section)
        print(f"Found match for '{search_term}' at position {match.start()}")

# Process relevant sections only
combined_sections = "

---

".join(relevant_sections)
answer = llm_query(f"""
Query: {query}

Relevant sections:
{combined_sections}

Answer the query based on these sections.
""")

print(f"Answer: {answer}")
FINAL(answer)
```

''\<close>

definition MOSAIC_SYSTEM_PROMPT_part_11 :: string where
  \<open>MOSAIC_SYSTEM_PROMPT_part_11 = ''### Strategy 4: Structured Content (Markdown, JSON, Code)
**When to use**: Documents with clear structure (headings, sections, etc.)

**Approach**: Structure-aware chunking
```python
import re

# For markdown, split by headings
if '# ' in context or '## ' in context:
    # Split by markdown headings
    sections = re.split(r'
(?=#{1,3} )', context)
    print(f"Found {len(sections)} markdown sections")
    
    # Process each section
    section_summaries = []
    for i, section in enumerate(sections):
        # Extract heading
        heading_match = re.match(r'(#{1,3}) (.+)', section)
''\<close>

definition MOSAIC_SYSTEM_PROMPT_part_12 :: string where
  \<open>MOSAIC_SYSTEM_PROMPT_part_12 = ''        heading = heading_match.group(2) if heading_match else f"Section {i+1}"
        
        # Summarize if section is large
        if len(section) > 10000:
            summary = llm_query(f"""
Summarize this section in relation to: {query}

Section: {heading}
Content:
{section[:5000]}
...
""")
        else:
            summary = section
        
        section_summaries.append(f"## {heading}
{summary}")
        print(f"Processed: {heading}")
    
    # Combine and answer
    combined = "

".join(section_summaries)
    answer = llm_query(f"""
Query: {query}

Document sections:
''\<close>

definition MOSAIC_SYSTEM_PROMPT_part_13 :: string where
  \<open>MOSAIC_SYSTEM_PROMPT_part_13 = ''{combined}

Answer based on the document.
""")
    
    FINAL(answer)

# For JSON, process by keys
elif context.strip().startswith('{'):
    import json
    try:
        data = json.loads(context)
        # Process JSON structure
        keys = list(data.keys())
        print(f"JSON keys: {keys}")
        
        # Query about structure
        answer = llm_query(f"""
Query: {query}

JSON data keys: {keys}
Sample: {str(data)[:1000]}

Answer the query based on this JSON data.
""")
        
        FINAL(answer)
    except:
        print("JSON parse failed, falling back to text processing")
''\<close>

definition MOSAIC_SYSTEM_PROMPT_part_14 :: string where
  \<open>MOSAIC_SYSTEM_PROMPT_part_14 = ''```

### Strategy 5: Iterative Reading
**When to use**: Sequential analysis, building understanding progressively

**Approach**: Sequential processing with state maintenance
```python
# Read in sequence, maintaining state
understanding = ""
chunk_size = 100000
num_chunks = (len(context) + chunk_size - 1) // chunk_size

print(f"Iterative reading: {num_chunks} chunks")

for i in range(num_chunks):
    start = i * chunk_size
    end = min((i + 1) * chunk_size, len(context))
    chunk = context[start:end]
    
    # Update understanding with each chunk
    understanding = llm_query(f"""
''\<close>

definition MOSAIC_SYSTEM_PROMPT_part_15 :: string where
  \<open>MOSAIC_SYSTEM_PROMPT_part_15 = ''Previous understanding: {understanding}

New chunk ({i+1}/{num_chunks}):
{chunk}

Update your understanding. What key points should be retained?
Keep response under 500 words.
""")
    
    print(f"Chunk {i+1}/{num_chunks} processed")
    print(f"Understanding: {understanding[:200]}...")

# Final answer based on accumulated understanding
answer = llm_query(f"""
Query: {query}

Accumulated understanding from iterative reading:
{understanding}

Provide a comprehensive answer.
""")

FINAL(answer)
```

## Task Patterns

Apply these patterns based on task type:

### Pattern A: Simple Questions
''\<close>

definition MOSAIC_SYSTEM_PROMPT_part_16 :: string where
  \<open>MOSAIC_SYSTEM_PROMPT_part_16 = ''**When to use**: Direct questions with clear answers

```python
# Check memory first
mem_results = memory_search(query, k=5)
if mem_results:
    print(f"Found {len(mem_results)} memory entries")
    # Use memory to answer
    answer = llm_query(f"""
Question: {query}

Known information:
{mem_results}

Provide a direct answer based on known information.
""")
else:
    # Answer directly if no context needed
    answer = llm_query(f"Question: {query}

Provide a direct, concise answer.")

FINAL(answer)
```

### Pattern B: Document/Context Analysis
''\<close>

definition MOSAIC_SYSTEM_PROMPT_part_17 :: string where
  \<open>MOSAIC_SYSTEM_PROMPT_part_17 = ''**When to use**: Analyzing provided documents or contexts

```python
# Determine context size and apply appropriate strategy
context_len = len(context)
print(f"Context length: {context_len} characters")

if context_len < 500000:
    # Strategy 1: Direct processing
    answer = llm_query(f"Analyze: {query}

Document:
{context}")
elif context_len < 2000000:
    # Strategy 2: Chunk and aggregate
    # (See Strategy 2 code above)
    pass
else:
    # Strategy 3: Targeted search
    # (See Strategy 3 code above)
    pass

FINAL(answer)
```

### Pattern C: Multi-Step Tasks
''\<close>

definition MOSAIC_SYSTEM_PROMPT_part_18 :: string where
  \<open>MOSAIC_SYSTEM_PROMPT_part_18 = ''**When to use**: Tasks requiring multiple operations in sequence

```python
# Define steps
steps = [
    "Step 1: Extract key information",
    "Step 2: Process information",
    "Step 3: Generate output"
]

results = {}

for step_desc in steps:
    print(f"Executing: {step_desc}")
    
    # Build context from previous results
    context_str = "
".join([f"{k}: {v}" for k, v in results.items()])
    
    result = llm_query(f"""
Task: {query}
Current step: {step_desc}
Previous results: {context_str}

Execute this step and provide output.
""")
    
    results[step_desc] = result
''\<close>

definition MOSAIC_SYSTEM_PROMPT_part_19 :: string where
  \<open>MOSAIC_SYSTEM_PROMPT_part_19 = ''    print(f"Result: {result[:150]}...")

# Combine results
final_result = llm_query(f"""
Task: {query}

All step results:
{results}

Synthesize final output.
""")

FINAL(final_result)
```

### Pattern D: Research & Writing
**When to use**: Writing papers, reports, theses from scratch

```python
# Research phase
topic = query  # The research topic
print(f"Research topic: {topic}")

# Check existing knowledge
prior = memory_search(topic, k=10)
print(f"Found {len(prior)} relevant memory entries")

# Define research questions
research_questions = [
    f"What is the current state of {topic}?",
''\<close>

definition MOSAIC_SYSTEM_PROMPT_part_20 :: string where
  \<open>MOSAIC_SYSTEM_PROMPT_part_20 = ''    f"What are the key challenges in {topic}?",
    f"What solutions or approaches exist for {topic}?",
    f"What are recent developments in {topic}?"
]

# Gather findings
findings = {}
for rq in research_questions:
    print(f"Researching: {rq}")
    answer = llm_query(f"""
Research question: {rq}

Prior knowledge:
{prior}

Provide a comprehensive answer with specific details and examples.
""")
    findings[rq] = answer
    print(f"Answer: {answer[:200]}...")

# Create outline
outline = llm_query(f"""
Topic: {topic}

Research findings:
{chr(10).join([f"Q: {q}
A: {a}
''\<close>

definition MOSAIC_SYSTEM_PROMPT_part_21 :: string where
  \<open>MOSAIC_SYSTEM_PROMPT_part_21 = ''" for q, a in findings.items()])}

Create a detailed outline for a {document_type} on this topic.
Include main sections and key points for each.
""")

print(f"Outline created:
{outline}")

# Write sections
document_sections = {}
section_names = ['Introduction', 'Background', 'Analysis', 'Discussion', 'Conclusion']

for section_name in section_names:
    print(f"Writing section: {section_name}")
    
    section_content = llm_query(f"""
Document: {topic}
Section: {section_name}

Outline:
{outline}

Research findings:
{findings}

Previously written sections:
{document_sections}

''\<close>

definition MOSAIC_SYSTEM_PROMPT_part_22 :: string where
  \<open>MOSAIC_SYSTEM_PROMPT_part_22 = ''Write a comprehensive {section_name} section. Include specific details,
examples, and maintain coherence with other sections.
""")
    
    document_sections[section_name] = section_content
    print(f"Section written: {len(section_content)} chars")

# Combine into final document
final_document = "

".join([f"# {name}

{content}" 
                               for name, content in document_sections.items()])

print(f"Document complete: {len(final_document)} chars")
FINAL(final_document)
```

### Pattern E: Code Analysis/Generation
''\<close>

definition MOSAIC_SYSTEM_PROMPT_part_23 :: string where
  \<open>MOSAIC_SYSTEM_PROMPT_part_23 = ''**When to use**: Analyzing code repositories or generating code

```python
# For code repository analysis
import os

# If analyzing a codebase structure
if 'analyze' in query.lower():
    # Get overview
    overview = llm_query(f"""
Code context:
{context[:10000]}

Analyze:
1. What is the primary purpose of this code?
2. What are the main components/modules?
3. What patterns or architectures are used?
4. What are potential issues or improvements?

Provide structured analysis.
""")
    
    print(f"Overview: {overview}")
    
    # Deep dive on specific aspects
''\<close>

definition MOSAIC_SYSTEM_PROMPT_part_24 :: string where
  \<open>MOSAIC_SYSTEM_PROMPT_part_24 = ''    aspects = ['Architecture', 'Code Quality', 'Potential Issues']
    detailed_analysis = {}
    
    for aspect in aspects:
        analysis = llm_query(f"""
Code: {context[:20000]}
Focus: {aspect}
Overview: {overview}

Provide detailed analysis of {aspect}.
""")
        detailed_analysis[aspect] = analysis
        print(f"{aspect}: {analysis[:150]}...")
    
    # Compile report
    report = f"# Code Analysis

## Overview
{overview}

"
    for aspect, analysis in detailed_analysis.items():
        report += f"## {aspect}
{analysis}

"
    
    FINAL(report)

# For code generation
else:
''\<close>

definition MOSAIC_SYSTEM_PROMPT_part_25 :: string where
  \<open>MOSAIC_SYSTEM_PROMPT_part_25 = ''    # Generate code step by step
    spec = llm_query(f"""
Request: {query}

Break this down into:
1. Required functions/classes
2. Input/output specifications
3. Key algorithms or logic

Provide structured specification.
""")
    
    print(f"Specification: {spec}")
    
    code = llm_query(f"""
Request: {query}
Specification: {spec}

Generate complete, working Python code.
Include docstrings and error handling.
""")
    
    print("Generated code:")
    print(code)
    
    FINAL(code)
```

### Pattern F: Information Aggregation
**When to use**: Combining information from multiple sources

''\<close>

definition MOSAIC_SYSTEM_PROMPT_part_26 :: string where
  \<open>MOSAIC_SYSTEM_PROMPT_part_26 = ''```python
# Query multiple sources or aspects
aspects = query.split(',')  # Assuming comma-separated aspects
print(f"Aggregating information on {len(aspects)} aspects")

aggregated_info = {}

for aspect in aspects:
    aspect = aspect.strip()
    
    # Check memory for this aspect
    mem_info = memory_search(aspect, k=3)
    
    # If context provided, extract relevant info
    if 'context' in locals() and context:
        info = llm_query(f"""
Aspect: {aspect}
Context: {context[:50000]}
Memory: {mem_info}

Extract and summarize information about this aspect.
""")
    else:
''\<close>

definition MOSAIC_SYSTEM_PROMPT_part_27 :: string where
  \<open>MOSAIC_SYSTEM_PROMPT_part_27 = ''        info = llm_query(f"""
Aspect: {aspect}
Known information: {mem_info}

Provide comprehensive information about this aspect.
""")
    
    aggregated_info[aspect] = info
    print(f"{aspect}: {info[:100]}...")

# Synthesize
synthesis = llm_query(f"""
Query: {query}

Information gathered:
{chr(10).join([f"- {k}: {v}" for k, v in aggregated_info.items()])}

Synthesize this information into a coherent response.
""")

FINAL(synthesis)
```

## Special Case Handling

### When context variable exists
```python
if 'context' in locals() and context:
    context_len = len(context)
''\<close>

definition MOSAIC_SYSTEM_PROMPT_part_28 :: string where
  \<open>MOSAIC_SYSTEM_PROMPT_part_28 = ''    print(f"Context detected: {context_len} chars")
    
    # Apply appropriate strategy based on size
    if context_len < 500000:
        # Use Strategy 1
        pass
    elif context_len < 2000000:
        # Use Strategy 2
        pass
    else:
        # Use Strategy 3
        pass
else:
    print("No context provided")
    # Check memory or answer directly
```

### When memory is relevant
```python
# Always check memory first for relevant topics
query_terms = query.lower().split()
relevant_memories = memory_search(query, k=10)

if relevant_memories:
''\<close>

definition MOSAIC_SYSTEM_PROMPT_part_29 :: string where
  \<open>MOSAIC_SYSTEM_PROMPT_part_29 = ''    print(f"Found {len(relevant_memories)} relevant memories")
    # Use memory in your processing
else:
    print("No relevant memories found")
```

### When task is ambiguous
```python
# Clarify the task first
clarification = llm_query(f"""
User request: {query}

This request could mean:
1. [Interpretation 1]
2. [Interpretation 2]
3. [Interpretation 3]

Which interpretation is most likely? Or does it need clarification?
Respond with the most reasonable interpretation and proceed with that.
""")

print(f"Interpretation: {clarification}")
# Then proceed with the clarified task
```

''\<close>

definition MOSAIC_SYSTEM_PROMPT_part_30 :: string where
  \<open>MOSAIC_SYSTEM_PROMPT_part_30 = ''### When errors occur
```python
try:
    # Your main processing logic
    result = process_query(query)
    FINAL(result)
except Exception as e:
    print(f"Error occurred: {e}")
    
    # Attempt recovery
    fallback_result = llm_query(f"""
An error occurred while processing: {query}
Error: {e}

Provide a best-effort answer or explanation of what went wrong.
""")
    
    print(f"Fallback result: {fallback_result}")
    FINAL(fallback_result)
```

## Output Format

### For direct text answers
```python
# Use FINAL() to return text directly
answer = "The answer is..."
FINAL(answer)
```

''\<close>

definition MOSAIC_SYSTEM_PROMPT_part_31 :: string where
  \<open>MOSAIC_SYSTEM_PROMPT_part_31 = ''### For returning variables
```python
# Use FINAL_VAR() to return a Python variable
result_data = {
    'summary': '...',
    'details': [...],
    'conclusion': '...'
}
FINAL_VAR(result_data)
```

## Critical Rules

1. **Don't just plan'' @ [CHR 0xE2] @ U20AC @ U201D @ ''execute**
   - Never respond with "I would do X, then Y, then Z"
   - Actually DO X, Y, and Z with code

2. **Show your work with print()**
   - Print intermediate results
   - Show progress through multi-step tasks
   - Make your reasoning visible

3. **Handle errors gracefully**
   - Use try/except blocks for risky operations
''\<close>

definition MOSAIC_SYSTEM_PROMPT_part_32 :: string where
  \<open>MOSAIC_SYSTEM_PROMPT_part_32 = ''   - Provide fallback approaches
   - Explain what went wrong

4. **Be efficient with sub-LLMs**
   - Don't call llm_query() unnecessarily
   - Batch similar queries when possible
   - Reuse results in variables

5. **Verify before finishing**
   - Check that your answer actually addresses the query
   - Validate outputs make sense
   - Test code before returning it

6. **Memory first, compute second**
   - Always check memory_search() before heavy processing
   - Use memory_count() to gauge available knowledge
   - Build on existing knowledge rather than starting from scratch

''\<close>

definition MOSAIC_SYSTEM_PROMPT_part_33 :: string where
  \<open>MOSAIC_SYSTEM_PROMPT_part_33 = ''## Example: Complete Task Execution

Here's a complete example showing best practices:

```python
# 1. Understand the task
query = "Analyze the provided research paper and identify key contributions"
print(f"Task: {query}")

# 2. Check memory first
prior = memory_search("research paper analysis", k=5)
print(f"Prior knowledge: {len(prior)} entries")

# 3. Assess context
if 'context' in locals():
    context_len = len(context)
    print(f"Context provided: {context_len} chars")
else:
    context_len = 0
    print("No context provided")

# 4. Choose appropriate strategy
if context_len < 500000:
''\<close>

definition MOSAIC_SYSTEM_PROMPT_part_34 :: string where
  \<open>MOSAIC_SYSTEM_PROMPT_part_34 = ''    # Direct analysis
    analysis = llm_query(f"""
    Analyze this research paper and identify:
    1. Main research question
    2. Methodology
    3. Key contributions
    4. Impact and significance
    
    Paper:
    {context}
    
    Prior knowledge about paper analysis:
    {prior}
    """)
    
    print("Analysis complete")
    FINAL(analysis)
else:
    # Chunk-based analysis for larger papers
    sections = ['Abstract', 'Introduction', 'Methods', 'Results', 'Discussion', 'Conclusion']
    findings = {}
    
    for section in sections:
        # Find section in context
''\<close>

definition MOSAIC_SYSTEM_PROMPT_part_35 :: string where
  \<open>MOSAIC_SYSTEM_PROMPT_part_35 = ''        section_pattern = f"#{1,3} {section}"
        # ... extract section ...
        
        if section_text:
            analysis = llm_query(f"Analyze the {section} section: {section_text[:5000]}")
            findings[section] = analysis
            print(f"{section}: {analysis[:100]}...")
    
    # Synthesize
    final_analysis = llm_query(f"""
    Research paper analysis by section:
    {findings}
    
    Synthesize into: 1) Main question, 2) Methodology, 3) Key contributions, 4) Impact
    """)
    
    FINAL(final_analysis)
```

''\<close>

definition MOSAIC_SYSTEM_PROMPT_part_36 :: string where
  \<open>MOSAIC_SYSTEM_PROMPT_part_36 = ''Remember: **Execute, don't describe. Show your work. Be efficient. Verify results.**
''\<close>

definition MOSAIC_SYSTEM_PROMPT :: string where
  "MOSAIC_SYSTEM_PROMPT = concat
    [MOSAIC_SYSTEM_PROMPT_part_01,
     MOSAIC_SYSTEM_PROMPT_part_02,
     MOSAIC_SYSTEM_PROMPT_part_03,
     MOSAIC_SYSTEM_PROMPT_part_04,
     MOSAIC_SYSTEM_PROMPT_part_05,
     MOSAIC_SYSTEM_PROMPT_part_06,
     MOSAIC_SYSTEM_PROMPT_part_07,
     MOSAIC_SYSTEM_PROMPT_part_08,
     MOSAIC_SYSTEM_PROMPT_part_09,
     MOSAIC_SYSTEM_PROMPT_part_10,
     MOSAIC_SYSTEM_PROMPT_part_11,
     MOSAIC_SYSTEM_PROMPT_part_12,
     MOSAIC_SYSTEM_PROMPT_part_13,
     MOSAIC_SYSTEM_PROMPT_part_14,
     MOSAIC_SYSTEM_PROMPT_part_15,
     MOSAIC_SYSTEM_PROMPT_part_16,
     MOSAIC_SYSTEM_PROMPT_part_17,
     MOSAIC_SYSTEM_PROMPT_part_18,
     MOSAIC_SYSTEM_PROMPT_part_19,
     MOSAIC_SYSTEM_PROMPT_part_20,
     MOSAIC_SYSTEM_PROMPT_part_21,
     MOSAIC_SYSTEM_PROMPT_part_22,
     MOSAIC_SYSTEM_PROMPT_part_23,
     MOSAIC_SYSTEM_PROMPT_part_24,
     MOSAIC_SYSTEM_PROMPT_part_25,
     MOSAIC_SYSTEM_PROMPT_part_26,
     MOSAIC_SYSTEM_PROMPT_part_27,
     MOSAIC_SYSTEM_PROMPT_part_28,
     MOSAIC_SYSTEM_PROMPT_part_29,
     MOSAIC_SYSTEM_PROMPT_part_30,
     MOSAIC_SYSTEM_PROMPT_part_31,
     MOSAIC_SYSTEM_PROMPT_part_32,
     MOSAIC_SYSTEM_PROMPT_part_33,
     MOSAIC_SYSTEM_PROMPT_part_34,
     MOSAIC_SYSTEM_PROMPT_part_35,
     MOSAIC_SYSTEM_PROMPT_part_36]"

subsection \<open>What the builders use of Python's runtime\<close>

text \<open>
  \<^verbatim>\<open>str.lower()\<close>, on the code points below U+0100: the letters A to Z and the capital
  letters U+00C0 to U+00DE (all of that range but the multiplication sign U+00D7) move
  up by 32; every other code point stays.
\<close>

definition lower_char :: "char \<Rightarrow> char" where
  "lower_char c =
     (let n = (of_char c :: nat)
      in if (65 \<le> n \<and> n \<le> 90) \<or> (192 \<le> n \<and> n \<le> 222 \<and> n \<noteq> 215)
         then char_of (n + 32) else c)"

definition lower :: "string \<Rightarrow> string" where
  "lower s = map lower_char s"

text \<open>
  The format specification \<^verbatim>\<open>{context_length:,}\<close>: the decimal digits of the absolute
  value, a comma before every group of three digits counted from the right, and a minus
  sign in front of a negative number.
\<close>

definition digit_char :: "nat \<Rightarrow> char" where
  "digit_char d = char_of (48 + d)"

fun decimal :: "nat \<Rightarrow> string" where
  "decimal n = (if n < 10 then [digit_char n] else decimal (n div 10) @ [digit_char (n mod 10)])"

function group_thousands :: "string \<Rightarrow> string" where
  "group_thousands ds =
     (if length ds \<le> 3 then ds
      else group_thousands (take (length ds - 3) ds) @ '','' @ drop (length ds - 3) ds)"
  by pat_completeness auto
termination
  by (relation "measure length") auto

definition format_comma :: "int \<Rightarrow> string" where
  "format_comma n =
     (if n < 0 then ''-'' @ group_thousands (decimal (nat (- n)))
      else group_thousands (decimal (nat n)))"

subsection \<open>The builders\<close>

definition get_system_prompt :: string where
  "get_system_prompt = MOSAIC_SYSTEM_PROMPT"

text \<open>
  The local variable \<^verbatim>\<open>context_info\<close> of \<^verbatim>\<open>get_system_prompt_with_context\<close>, as it
  stands at the \<^verbatim>\<open>return\<close>: every \<^verbatim>\<open>+=\<close> of the source is an \<open>@\<close> on the right, in
  the source's order (lines 863 to 886).
\<close>

definition context_info ::
  "string option \<Rightarrow> int option \<Rightarrow> string option \<Rightarrow> string option \<Rightarrow> string" where
  "context_info context_type context_length context_structure context_preview =
     (let info = ''\<newline>\<newline>## Current Task Context\<newline>\<newline>'';
          info =
            (case context_length of
               None \<Rightarrow> info
             | Some n \<Rightarrow>
                 (let info = info @ ''- **Context Length**: '' @ format_comma n @ '' characters\<newline>''
                  in if n < 500000
                     then info @ ''  - *Recommended Strategy*: Strategy 1 (Direct processing)\<newline>''
                     else if n < 2000000
                     then info @ ''  - *Recommended Strategy*: Strategy 2 (Chunk and aggregate)\<newline>''
                     else info @ ''  - *Recommended Strategy*: Strategy 3 (Targeted search)\<newline>''));
          info =
            (case context_type of
               None \<Rightarrow> info
             | Some t \<Rightarrow>
                 (let info = info @ ''- **Context Type**: '' @ t @ ''\<newline>''
                  in if lower t \<in> set [''markdown'', ''json'', ''xml'', ''html'', ''code'']
                     then info @ ''  - *Recommended Strategy*: Strategy 4 (Structure-aware chunking)\<newline>''
                     else info));
          info =
            (case context_structure of
               None \<Rightarrow> info
             | Some s \<Rightarrow> info @ ''- **Structure**: '' @ s @ ''\<newline>'');
          info =
            (case context_preview of
               None \<Rightarrow> info
             | Some p \<Rightarrow>
                 info @ ''\<newline>### Context Preview\<newline>\<newline>```\<newline>'' @ take 500 p
                   @ ''\<newline>...\<newline>```\<newline>'')
      in info)"

definition get_system_prompt_with_context ::
  "string option \<Rightarrow> int option \<Rightarrow> string option \<Rightarrow> string option \<Rightarrow> string" where
  "get_system_prompt_with_context context_type context_length context_structure context_preview =
     MOSAIC_SYSTEM_PROMPT @ context_info context_type context_length context_structure context_preview"

text \<open>
  The same run of \<^verbatim>\<open>get_system_prompt_with_context\<close>, keeping what each statement adds:
  the initial value of \<^verbatim>\<open>context_info\<close> and then the right-hand side of every \<^verbatim>\<open>+=\<close>
  that is executed, in order.
\<close>

definition context_info_appends ::
  "string option \<Rightarrow> int option \<Rightarrow> string option \<Rightarrow> string option \<Rightarrow> string list" where
  "context_info_appends context_type context_length context_structure context_preview =
     (let added = [''\<newline>\<newline>## Current Task Context\<newline>\<newline>''];
          added =
            (case context_length of
               None \<Rightarrow> added
             | Some n \<Rightarrow>
                 (let added = added @ [''- **Context Length**: '' @ format_comma n @ '' characters\<newline>'']
                  in if n < 500000
                     then added @ [''  - *Recommended Strategy*: Strategy 1 (Direct processing)\<newline>'']
                     else if n < 2000000
                     then added @ [''  - *Recommended Strategy*: Strategy 2 (Chunk and aggregate)\<newline>'']
                     else added @ [''  - *Recommended Strategy*: Strategy 3 (Targeted search)\<newline>'']));
          added =
            (case context_type of
               None \<Rightarrow> added
             | Some t \<Rightarrow>
                 (let added = added @ [''- **Context Type**: '' @ t @ ''\<newline>'']
                  in if lower t \<in> set [''markdown'', ''json'', ''xml'', ''html'', ''code'']
                     then added @ [''  - *Recommended Strategy*: Strategy 4 (Structure-aware chunking)\<newline>'']
                     else added));
          added =
            (case context_structure of
               None \<Rightarrow> added
             | Some s \<Rightarrow> added @ [''- **Structure**: '' @ s @ ''\<newline>'']);
          added =
            (case context_preview of
               None \<Rightarrow> added
             | Some p \<Rightarrow>
                 added @ [''\<newline>### Context Preview\<newline>\<newline>```\<newline>'' @ take 500 p
                   @ ''\<newline>...\<newline>```\<newline>''])
      in added)"

text \<open>
  The three task builders. Each addendum is the f-string of the source, its replacement
  fields written as \<open>@\<close> of the argument (lines 902 to 937, 952 to 985 and 1000 to 1036).
\<close>

definition research_addendum :: "string \<Rightarrow> string \<Rightarrow> string" where
  \<open>research_addendum topic document_type = ''

## Current Research Task

You are tasked with researching and writing a '' @ document_type @ '' on the topic: **'' @ topic @ ''**

### Recommended Approach

1. **Research Phase** (Pattern D):
   - Check memory_search("'' @ topic @ ''", k=10) for prior knowledge
   - Define 4-6 key research questions
   - Use llm_query() to investigate each question
   - Gather and organize findings

2. **Planning Phase**:
   - Create a detailed outline based on findings
   - Identify main sections (Introduction, Background, Analysis, etc.)
   - Note key points for each section

3. **Writing Phase**:
   - Write each section using llm_query()
   - Maintain coherence between sections
   - Include specific details and examples
   - Build progressively on previous sections

4. **Review Phase**:
   - Check completeness and flow
   - Verify all requirements are met
   - Ensure proper structure and formatting

### Expected Output

Return the complete '' @ document_type @ '' using FINAL() with proper formatting, citations, and structure.

**Now proceed with the research and writing task using Pattern D from the main prompt.**
''\<close>

definition code_addendum :: "string \<Rightarrow> string" where
  \<open>code_addendum task_description = ''

## Current Code Task

You are tasked with: **'' @ task_description @ ''**

### Recommended Approach

Use **Pattern E: Code Analysis/Generation** from the main prompt.

#### For Code Analysis:
1. Examine code structure and organization
2. Identify patterns, architectures, and design choices
3. Assess code quality and potential issues
4. Provide actionable recommendations

#### For Code Generation:
1. Break down requirements into specifications
2. Design function/class structure
3. Generate clean, documented code
4. Include error handling and edge cases
5. Test and verify the implementation

### Code Quality Standards

Ensure all code:
- Has clear docstrings and comments
- Includes type hints where applicable
- Handles errors gracefully
- Follows Python best practices (PEP 8)
- Is tested with examples

**Now proceed with the code task using Pattern E from the main prompt.**
''\<close>

definition analysis_addendum :: "string \<Rightarrow> string" where
  \<open>analysis_addendum context_description = ''

## Current Analysis Task

You will analyze: **'' @ context_description @ ''**

### Recommended Approach

1. **Initial Assessment**:
   - Check context length with len(context)
   - Identify structure and format
   - Choose appropriate strategy (1-5)

2. **Analysis Phase** (Pattern B):
   - Apply chosen strategy for context processing
   - Extract key information systematically
   - Note important details and relationships

3. **Synthesis Phase**:
   - Aggregate findings
   - Draw connections and insights
   - Address specific query requirements

4. **Output Phase**:
   - Present analysis clearly
   - Include supporting evidence
   - Provide actionable conclusions

### Key Considerations

- **Small contexts** (< 500K chars): Use direct analysis
- **Medium contexts** (500K-2M chars): Chunk and aggregate
- **Large contexts** (> 2M chars): Use targeted search
- **Structured content**: Leverage structure for efficient processing

**Now proceed with the analysis task using appropriate strategies from the main prompt.**
''\<close>

definition get_system_prompt_for_research :: "string \<Rightarrow> string \<Rightarrow> string" where
  "get_system_prompt_for_research topic document_type =
     MOSAIC_SYSTEM_PROMPT @ research_addendum topic document_type"

definition get_system_prompt_for_code :: "string \<Rightarrow> string" where
  "get_system_prompt_for_code task_description =
     MOSAIC_SYSTEM_PROMPT @ code_addendum task_description"

definition get_system_prompt_for_analysis :: "string \<Rightarrow> string" where
  "get_system_prompt_for_analysis context_description =
     MOSAIC_SYSTEM_PROMPT @ analysis_addendum context_description"

subsection \<open>Calling the builders\<close>

text \<open>
  A call of one of the five public functions, with each argument given or left out
  (\<open>None\<close>). Python binds the arguments before the body runs: a parameter without a
  default that gets no argument raises \<^verbatim>\<open>TypeError\<close>, and the body does not start;
  \<^verbatim>\<open>document_type\<close> left out is \<^verbatim>\<open>"research paper"\<close>; the four parameters of
  \<^verbatim>\<open>get_system_prompt_with_context\<close> left out are \<^verbatim>\<open>None\<close>. With arguments of
  the documented types (\<^verbatim>\<open>str\<close>, and \<^verbatim>\<open>int\<close> for \<^verbatim>\<open>context_length\<close>) no statement of
  the bodies raises; calls with other values are the subject of the next subsection.
\<close>

datatype py_error = TypeError | ValueError | AttributeError

datatype call =
    GetSystemPrompt
  | WithContext "string option" "int option" "string option" "string option"
  | ForResearch "string option" "string option"
  | ForCode "string option"
  | ForAnalysis "string option"

fun run :: "call \<Rightarrow> py_error + string" where
  "run GetSystemPrompt = Inr get_system_prompt"
| "run (WithContext context_type context_length context_structure context_preview) =
     Inr (get_system_prompt_with_context context_type context_length context_structure context_preview)"
| "run (ForResearch None document_type) = Inl TypeError"
| "run (ForResearch (Some topic) None) = Inr (get_system_prompt_for_research topic ''research paper'')"
| "run (ForResearch (Some topic) (Some document_type)) =
     Inr (get_system_prompt_for_research topic document_type)"
| "run (ForCode None) = Inl TypeError"
| "run (ForCode (Some task_description)) = Inr (get_system_prompt_for_code task_description)"
| "run (ForAnalysis None) = Inl TypeError"
| "run (ForAnalysis (Some context_description)) =
     Inr (get_system_prompt_for_analysis context_description)"

text \<open>The text a successful call puts after the template.\<close>

fun addendum :: "call \<Rightarrow> string" where
  "addendum GetSystemPrompt = []"
| "addendum (WithContext context_type context_length context_structure context_preview) =
     context_info context_type context_length context_structure context_preview"
| "addendum (ForResearch (Some topic) None) = research_addendum topic ''research paper''"
| "addendum (ForResearch (Some topic) (Some document_type)) = research_addendum topic document_type"
| "addendum (ForCode (Some task_description)) = code_addendum task_description"
| "addendum (ForAnalysis (Some context_description)) = analysis_addendum context_description"
| "addendum _ = []"

subsection \<open>Calls with arguments of any type\<close>

text \<open>
  Python checks no types at a call: any value can be passed for any parameter, by position
  or by keyword. A value is here \<^verbatim>\<open>None\<close>, a \<^verbatim>\<open>str\<close> or an \<^verbatim>\<open>int\<close>; the other types of
  Python are left out. \<open>optional\<close> turns a left-out argument into \<^verbatim>\<open>None\<close>.

  The operations the bodies apply to their arguments, each with the exception it raises
  on a value of the wrong type: \<open>py_str\<close> is the replacement field \<^verbatim>\<open>{x}\<close> of an f-string,
  which takes every value; \<open>py_format_comma\<close> is \<^verbatim>\<open>{x:,}\<close>, a \<^verbatim>\<open>ValueError\<close> on a
  \<^verbatim>\<open>str\<close>; \<open>py_less\<close> is \<^verbatim>\<open>x < k\<close>; \<open>py_lower\<close> is \<^verbatim>\<open>x.lower()\<close>, an
  \<^verbatim>\<open>AttributeError\<close> on a value without that method; \<open>py_slice_500\<close> is \<^verbatim>\<open>x[:500]\<close>, a
  \<^verbatim>\<open>TypeError\<close> on an \<^verbatim>\<open>int\<close>. \<open>and_then\<close> runs the rest of a body unless an exception
  was raised.
\<close>

datatype pyval = PNone | PStr string | PInt int







definition and_then :: "py_error + 'a \<Rightarrow> ('a \<Rightarrow> py_error + 'b) \<Rightarrow> py_error + 'b" where
  "and_then r f = (case r of Inl e \<Rightarrow> Inl e | Inr x \<Rightarrow> f x)"









fun bind_arguments ::
  "(string \<times> pyval option) list \<Rightarrow> pyval list \<Rightarrow> (string \<times> pyval) list \<Rightarrow> py_error + pyval list" where
  "bind_arguments [] [] kw = Inr []"
| "bind_arguments [] (a # as) kw = Inl TypeError"
| "bind_arguments ((p, d) # ps) (a # as) kw =
     (if p \<in> set (map fst kw) then Inl TypeError
      else and_then (bind_arguments ps as kw) (\<lambda>vs. Inr (a # vs)))"
| "bind_arguments ((p, d) # ps) [] kw =
     (case map_of kw p of
        Some v \<Rightarrow> and_then (bind_arguments ps [] kw) (\<lambda>vs. Inr (v # vs))
      | None \<Rightarrow>
          (case d of
             Some v \<Rightarrow> and_then (bind_arguments ps [] kw) (\<lambda>vs. Inr (v # vs))
           | None \<Rightarrow> Inl TypeError))"





subsection \<open>The context addendum over all code points\<close>

text \<open>
  The test of line 879, \<^verbatim>\<open>context_type.lower() in [...]\<close>, is the one place where the
  result depends on code points beyond U+00FF: \<^verbatim>\<open>str.lower()\<close> sends U+212A (KELVIN SIGN)
  to the letter k. For the statements about that test the addendum is built a second time
  over lists of code points, \<open>u\<close> taking a string of the model above to its code points.

  \<open>lower_code_point\<close> is \<^verbatim>\<open>str.lower()\<close> on U+0000 to U+00FF, on U+0130 (which becomes
  the two code points U+0069 and U+0307) and on U+212A; every other code point is left as
  it is. Python lowers further capitals beyond U+00FF, each of them to code points beyond
  U+007F, so the comparison with the five ASCII words comes out as in Python. The lemma
  \<open>context_info_u_sim\<close> below shows that on the strings of the model above
  \<open>context_info_u\<close> is \<open>context_info\<close>.
\<close>

definition u :: "string \<Rightarrow> nat list" where
  "u s = map of_char s"

definition lower_code_point :: "nat \<Rightarrow> nat list" where
  "lower_code_point c =
     (if (65 \<le> c \<and> c \<le> 90) \<or> (192 \<le> c \<and> c \<le> 222 \<and> c \<noteq> 215) then [c + 32]
      else if c = 0x212A then [0x6B]
      else if c = 0x130 then [0x69, 0x307]
      else [c])"

definition lower_u :: "nat list \<Rightarrow> nat list" where
  "lower_u s = concat (map lower_code_point s)"

definition context_info_u ::
  "nat list option \<Rightarrow> int option \<Rightarrow> nat list option \<Rightarrow> nat list option \<Rightarrow> nat list" where
  "context_info_u context_type context_length context_structure context_preview =
     (let info = u ''\<newline>\<newline>## Current Task Context\<newline>\<newline>'';
          info =
            (case context_length of
               None \<Rightarrow> info
             | Some n \<Rightarrow>
                 (let info = info @ u ''- **Context Length**: '' @ u (format_comma n)
                        @ u '' characters\<newline>''
                  in if n < 500000
                     then info @ u ''  - *Recommended Strategy*: Strategy 1 (Direct processing)\<newline>''
                     else if n < 2000000
                     then info @ u ''  - *Recommended Strategy*: Strategy 2 (Chunk and aggregate)\<newline>''
                     else info @ u ''  - *Recommended Strategy*: Strategy 3 (Targeted search)\<newline>''));
          info =
            (case context_type of
               None \<Rightarrow> info
             | Some t \<Rightarrow>
                 (let info = info @ u ''- **Context Type**: '' @ t @ u ''\<newline>''
                  in if lower_u t \<in> set [u ''markdown'', u ''json'', u ''xml'', u ''html'', u ''code'']
                     then info @ u ''  - *Recommended Strategy*: Strategy 4 (Structure-aware chunking)\<newline>''
                     else info));
          info =
            (case context_structure of
               None \<Rightarrow> info
             | Some s \<Rightarrow> info @ u ''- **Structure**: '' @ s @ u ''\<newline>'');
          info =
            (case context_preview of
               None \<Rightarrow> info
             | Some p \<Rightarrow>
                 info @ u ''\<newline>### Context Preview\<newline>\<newline>```\<newline>'' @ take 500 p
                   @ u ''\<newline>...\<newline>```\<newline>'')
      in info)"

definition context_info_appends_u ::
  "nat list option \<Rightarrow> int option \<Rightarrow> nat list option \<Rightarrow> nat list option \<Rightarrow> nat list list" where
  "context_info_appends_u context_type context_length context_structure context_preview =
     (let added = [u ''\<newline>\<newline>## Current Task Context\<newline>\<newline>''];
          added =
            (case context_length of
               None \<Rightarrow> added
             | Some n \<Rightarrow>
                 (let added = added @ [u ''- **Context Length**: '' @ u (format_comma n)
                        @ u '' characters\<newline>'']
                  in if n < 500000
                     then added @ [u ''  - *Recommended Strategy*: Strategy 1 (Direct processing)\<newline>'']
                     else if n < 2000000
                     then added @ [u ''  - *Recommended Strategy*: Strategy 2 (Chunk and aggregate)\<newline>'']
                     else added @ [u ''  - *Recommended Strategy*: Strategy 3 (Targeted search)\<newline>'']));
          added =
            (case context_type of
               None \<Rightarrow> added
             | Some t \<Rightarrow>
                 (let added = added @ [u ''- **Context Type**: '' @ t @ u ''\<newline>'']
                  in if lower_u t \<in> set [u ''markdown'', u ''json'', u ''xml'', u ''html'', u ''code'']
                     then added @ [u ''  - *Recommended Strategy*: Strategy 4 (Structure-aware chunking)\<newline>'']
                     else added));
          added =
            (case context_structure of
               None \<Rightarrow> added
             | Some s \<Rightarrow> added @ [u ''- **Structure**: '' @ s @ u ''\<newline>'']);
          added =
            (case context_preview of
               None \<Rightarrow> added
             | Some p \<Rightarrow>
                 added @ [u ''\<newline>### Context Preview\<newline>\<newline>```\<newline>'' @ take 500 p
                   @ u ''\<newline>...\<newline>```\<newline>''])
      in added)"

subsection \<open>Vocabulary of the statements\<close>

text \<open>
  \<open>index_of pat s\<close> is Python's \<^verbatim>\<open>s.find(pat)\<close>, with \<open>None\<close> for -1;
  \<open>appears_before a b s\<close> says that both \<open>a\<close> and \<open>b\<close> occur in \<open>s\<close> and \<open>a\<close> occurs
  first. \<open>supplied\<close> reads an optional string, the empty string when it is left out.
  \<open>length_recommendations\<close> are the texts of the three length-based recommendations
  (lines 870, 872 and 874), and \<open>count_present xs a\<close> is the number of the strings \<open>xs\<close>
  that occur in \<open>a\<close>.

  \<open>matches_ignoring_case s w\<close>: the code points \<open>s\<close> are the word \<open>w\<close> (of lower-case
  letters a to z) up to the case of each letter: position by position, the code point of
  \<open>s\<close> is the letter of \<open>w\<close>, or its capital, 32 code points below, or, for the letter k,
  the Kelvin sign U+212A.
\<close>

fun index_of :: "string \<Rightarrow> string \<Rightarrow> nat option" where
  "index_of pat [] = (if pat = [] then Some 0 else None)"
| "index_of pat (c # s) =
     (if prefix pat (c # s) then Some 0 else map_option Suc (index_of pat s))"

definition appears_before :: "string \<Rightarrow> string \<Rightarrow> string \<Rightarrow> bool" where
  "appears_before a b s =
     (case (index_of a s, index_of b s) of
        (Some i, Some j) \<Rightarrow> i < j
      | _ \<Rightarrow> False)"

definition supplied :: "'a list option \<Rightarrow> 'a list" where
  "supplied a = (case a of None \<Rightarrow> [] | Some s \<Rightarrow> s)"

definition length_recommendations :: "string list" where
  "length_recommendations =
     [''Strategy 1 (Direct processing)'', ''Strategy 2 (Chunk and aggregate)'',
      ''Strategy 3 (Targeted search)'']"

definition count_present :: "string list \<Rightarrow> string \<Rightarrow> nat" where
  "count_present xs a = length (filter (\<lambda>x. sublist x a) xs)"



subsection \<open>The addendum by sections\<close>

text \<open>
  What each of the four \<^verbatim>\<open>if ... is not None\<close> blocks of
  \<^verbatim>\<open>get_system_prompt_with_context\<close> adds. These are proof tools: the lemma
  \<open>context_info_appends_sections\<close> below shows that the run of the source, as
  \<open>context_info_appends\<close> records it, is the header followed by the four sections, and
  \<open>context_info_appends_u_sections\<close> shows the same over code points.
\<close>

definition length_section :: "int option \<Rightarrow> string list" where
  "length_section context_length =
     (case context_length of
        None \<Rightarrow> []
      | Some n \<Rightarrow>
          [''- **Context Length**: '' @ format_comma n @ '' characters\<newline>'',
           if n < 500000
           then ''  - *Recommended Strategy*: Strategy 1 (Direct processing)\<newline>''
           else if n < 2000000
           then ''  - *Recommended Strategy*: Strategy 2 (Chunk and aggregate)\<newline>''
           else ''  - *Recommended Strategy*: Strategy 3 (Targeted search)\<newline>''])"

definition type_section :: "string option \<Rightarrow> string list" where
  "type_section context_type =
     (case context_type of
        None \<Rightarrow> []
      | Some t \<Rightarrow>
          (''- **Context Type**: '' @ t @ ''\<newline>'') #
          (if lower t \<in> set [''markdown'', ''json'', ''xml'', ''html'', ''code'']
           then [''  - *Recommended Strategy*: Strategy 4 (Structure-aware chunking)\<newline>'']
           else []))"

definition structure_section :: "string option \<Rightarrow> string list" where
  "structure_section context_structure =
     (case context_structure of
        None \<Rightarrow> []
      | Some s \<Rightarrow> [''- **Structure**: '' @ s @ ''\<newline>''])"

definition preview_section :: "string option \<Rightarrow> string list" where
  "preview_section context_preview =
     (case context_preview of
        None \<Rightarrow> []
      | Some p \<Rightarrow>
          [''\<newline>### Context Preview\<newline>\<newline>```\<newline>'' @ take 500 p
             @ ''\<newline>...\<newline>```\<newline>''])"

definition length_section_u :: "int option \<Rightarrow> nat list list" where
  "length_section_u context_length =
     (case context_length of
        None \<Rightarrow> []
      | Some n \<Rightarrow>
          [u ''- **Context Length**: '' @ u (format_comma n) @ u '' characters\<newline>'',
           if n < 500000
           then u ''  - *Recommended Strategy*: Strategy 1 (Direct processing)\<newline>''
           else if n < 2000000
           then u ''  - *Recommended Strategy*: Strategy 2 (Chunk and aggregate)\<newline>''
           else u ''  - *Recommended Strategy*: Strategy 3 (Targeted search)\<newline>''])"

definition type_section_u :: "nat list option \<Rightarrow> nat list list" where
  "type_section_u context_type =
     (case context_type of
        None \<Rightarrow> []
      | Some t \<Rightarrow>
          (u ''- **Context Type**: '' @ t @ u ''\<newline>'') #
          (if lower_u t \<in> set [u ''markdown'', u ''json'', u ''xml'', u ''html'', u ''code'']
           then [u ''  - *Recommended Strategy*: Strategy 4 (Structure-aware chunking)\<newline>'']
           else []))"

definition structure_section_u :: "nat list option \<Rightarrow> nat list list" where
  "structure_section_u context_structure =
     (case context_structure of
        None \<Rightarrow> []
      | Some s \<Rightarrow> [u ''- **Structure**: '' @ s @ u ''\<newline>''])"

definition preview_section_u :: "nat list option \<Rightarrow> nat list list" where
  "preview_section_u context_preview =
     (case context_preview of
        None \<Rightarrow> []
      | Some p \<Rightarrow>
          [u ''\<newline>### Context Preview\<newline>\<newline>```\<newline>'' @ take 500 p
             @ u ''\<newline>...\<newline>```\<newline>''])"

section \<open>Structure of the context addendum\<close>

declare decimal.simps [simp del] group_thousands.simps [simp del]

lemma context_info_concat:
  "context_info a b c d = concat (context_info_appends a b c d)"
  unfolding context_info_def context_info_appends_def Let_def
  by (cases a; cases b; cases c; cases d;
      simp only: option.case concat.simps concat_append append_Nil2 append_assoc if_distrib [of concat]
        split: if_split)

lemma length_step:
  "(case cl of
      None \<Rightarrow> added
    | Some n \<Rightarrow>
        (let added = added @ [''- **Context Length**: '' @ format_comma n @ '' characters\<newline>'']
         in if n < 500000
            then added @ [''  - *Recommended Strategy*: Strategy 1 (Direct processing)\<newline>'']
            else if n < 2000000
            then added @ [''  - *Recommended Strategy*: Strategy 2 (Chunk and aggregate)\<newline>'']
            else added @ [''  - *Recommended Strategy*: Strategy 3 (Targeted search)\<newline>'']))
   = added @ length_section cl"
  unfolding length_section_def Let_def
  by (cases cl) (simp_all only: option.case append_Nil2 append_assoc append_Cons append_Nil if_distrib [of "\<lambda>x. [x]"] if_distrib [of "(@) _"] if_distrib [of "(#) _"])

lemma type_step:
  "(case ct of
      None \<Rightarrow> added
    | Some t \<Rightarrow>
        (let added = added @ [''- **Context Type**: '' @ t @ ''\<newline>'']
         in if lower t \<in> set [''markdown'', ''json'', ''xml'', ''html'', ''code'']
            then added @ [''  - *Recommended Strategy*: Strategy 4 (Structure-aware chunking)\<newline>'']
            else added))
   = added @ type_section ct"
  unfolding type_section_def Let_def
  by (cases ct) (simp_all only: option.case append_Nil2 append_assoc append_Cons append_Nil if_distrib [of "(@) _"] if_distrib [of "(#) _"])

lemma structure_step:
  "(case cs of None \<Rightarrow> added | Some s \<Rightarrow> added @ [''- **Structure**: '' @ s @ ''\<newline>''])
   = added @ structure_section cs"
  unfolding structure_section_def
  by (cases cs) (simp_all only: option.case append_Nil2)

lemma preview_step:
  "(case cp of
      None \<Rightarrow> added
    | Some p \<Rightarrow>
        added @ [''\<newline>### Context Preview\<newline>\<newline>```\<newline>'' @ take 500 p
          @ ''\<newline>...\<newline>```\<newline>''])
   = added @ preview_section cp"
  unfolding preview_section_def
  by (cases cp) (simp_all only: option.case append_Nil2)

lemma context_info_appends_sections:
  "context_info_appends ct cl cs cp =
     [''\<newline>\<newline>## Current Task Context\<newline>\<newline>''] @
       length_section cl @ type_section ct @ structure_section cs @ preview_section cp"
  unfolding context_info_appends_def Let_def
  by (simp only: length_step [unfolded Let_def] type_step [unfolded Let_def]
        structure_step preview_step)
     (simp only: append_assoc)

subsection \<open>The length thresholds\<close>

lemma sublist_concat_member:
  assumes "x \<in> set xs" shows "sublist x (concat xs)"
proof -
  from assms obtain ys zs where "xs = ys @ x # zs"
    by (auto simp: in_set_conv_decomp)
  then have "concat xs = concat ys @ x @ concat zs" by simp
  then show ?thesis by (simp only: sublist_appendI)
qed

lemma sublist_trans: "sublist xs ys \<Longrightarrow> sublist ys zs \<Longrightarrow> sublist xs zs"
  by (rule sublist_order.order.trans)

lemma sublist_append_right: "sublist x b \<Longrightarrow> sublist x (a @ b)"
  by (metis sublist_order.order.trans sublist_append_leftI)

lemma sublist_append_left: "sublist x a \<Longrightarrow> sublist x (a @ b)"
  by (metis sublist_order.order.trans sublist_append_rightI)

lemma length_section_member:
  "(if n < 500000 then ''  - *Recommended Strategy*: Strategy 1 (Direct processing)\<newline>''
    else if n < 2000000 then ''  - *Recommended Strategy*: Strategy 2 (Chunk and aggregate)\<newline>''
    else ''  - *Recommended Strategy*: Strategy 3 (Targeted search)\<newline>'')
   \<in> set (context_info_appends ct (Some n) cs cp)"
  by (simp only: context_info_appends_sections length_section_def option.case set_append
        list.set Un_iff insert_iff simp_thms)

text \<open>
  \<^bold>\<open>Claim C1.\<close> When \<^verbatim>\<open>context_length\<close> is supplied, the addendum of
  \<^verbatim>\<open>get_system_prompt_with_context\<close> contains the Strategy 1 (Direct processing)
  recommendation line if the length is below 500000, the Strategy 2 (Chunk and aggregate)
  line if it is at least 500000 and below 2000000, and the Strategy 3 (Targeted search) line
  if it is at least 2000000, whatever the other three arguments are. The witness takes the
  lengths 499999, 500000, 1999999 and 2000000: the boundary 500000 gives Strategy 2 and the
  boundary 2000000 gives Strategy 3.
\<close>

theorem length_thresholds:
  "(n < 500000 \<longrightarrow>
      sublist ''  - *Recommended Strategy*: Strategy 1 (Direct processing)\<newline>''
        (context_info ct (Some n) cs cp))
   \<and> (500000 \<le> n \<and> n < 2000000 \<longrightarrow>
      sublist ''  - *Recommended Strategy*: Strategy 2 (Chunk and aggregate)\<newline>''
        (context_info ct (Some n) cs cp))
   \<and> (2000000 \<le> n \<longrightarrow>
      sublist ''  - *Recommended Strategy*: Strategy 3 (Targeted search)\<newline>''
        (context_info ct (Some n) cs cp))"
proof -
  note m = sublist_concat_member [OF length_section_member [of n ct cs cp],
      folded context_info_concat]
  have "n < 500000 \<Longrightarrow> ?thesis" using m by (simp only: if_True) simp
  moreover have "\<not> n < 500000 \<Longrightarrow> n < 2000000 \<Longrightarrow> ?thesis"
    using m by (simp only: if_True if_False) simp
  moreover have "\<not> n < 500000 \<Longrightarrow> \<not> n < 2000000 \<Longrightarrow> ?thesis"
    using m by (simp only: if_False) simp
  ultimately show ?thesis by blast
qed

theorem length_thresholds_witness:
  "sublist ''  - *Recommended Strategy*: Strategy 1 (Direct processing)\<newline>''
     (context_info None (Some 499999) None None)
   \<and> sublist ''  - *Recommended Strategy*: Strategy 2 (Chunk and aggregate)\<newline>''
     (context_info None (Some 500000) None None)
   \<and> sublist ''  - *Recommended Strategy*: Strategy 2 (Chunk and aggregate)\<newline>''
     (context_info None (Some 1999999) None None)
   \<and> sublist ''  - *Recommended Strategy*: Strategy 3 (Targeted search)\<newline>''
     (context_info None (Some 2000000) None None)"
  using length_thresholds [of 499999 None None None] length_thresholds [of 500000 None None None]
    length_thresholds [of 1999999 None None None] length_thresholds [of 2000000 None None None]
  by simp

subsection \<open>Calls of the five functions\<close>

lemmas builder_defs = get_system_prompt_def get_system_prompt_with_context_def
  get_system_prompt_for_research_def get_system_prompt_for_code_def
  get_system_prompt_for_analysis_def

lemma run_Inr: "run c = Inr out \<Longrightarrow> out = MOSAIC_SYSTEM_PROMPT @ addendum c"
  by (cases c rule: run.cases) (auto simp: builder_defs)

text \<open>
  \<^bold>\<open>Claim C4.\<close> \<^verbatim>\<open>get_system_prompt\<close> takes no argument and returns the constant
  \<^verbatim>\<open>MOSAIC_SYSTEM_PROMPT\<close>, unchanged; a call of it never fails. It is a constant
  of the logic: any two calls give the same string, and there is no state to change.
\<close>

theorem base_prompt_is_template:
  "get_system_prompt = MOSAIC_SYSTEM_PROMPT \<and> run GetSystemPrompt = Inr MOSAIC_SYSTEM_PROMPT"
  by (simp add: get_system_prompt_def)

text \<open>
  \<^bold>\<open>Claim C7.\<close> For every call of one of the five public functions that returns, the
  length of the returned string is the length of \<^verbatim>\<open>MOSAIC_SYSTEM_PROMPT\<close> plus the length
  of the addendum the call builds, and so is at least the length of the template.
\<close>

theorem output_length:
  "run c = Inr out \<Longrightarrow>
     length out = length MOSAIC_SYSTEM_PROMPT + length (addendum c)
     \<and> length MOSAIC_SYSTEM_PROMPT \<le> length out"
  by (drule run_Inr) simp

theorem output_length_witness:
  "length (get_system_prompt_for_code ''Build API'')
     = length MOSAIC_SYSTEM_PROMPT + length (code_addendum ''Build API'')
   \<and> length MOSAIC_SYSTEM_PROMPT \<le> length (get_system_prompt_for_code ''Build API'')"
  using output_length [of "ForCode (Some ''Build API'')" "get_system_prompt_for_code ''Build API''"]
  by simp

text \<open>
  \<^bold>\<open>Claim C10.\<close> Every string one of the five public functions returns starts with the
  whole of \<^verbatim>\<open>MOSAIC_SYSTEM_PROMPT\<close>, and what follows the template is the addendum of the
  call.
\<close>

theorem template_prefix:
  "run c = Inr out \<Longrightarrow>
     prefix MOSAIC_SYSTEM_PROMPT out \<and> drop (length MOSAIC_SYSTEM_PROMPT) out = addendum c"
  by (drule run_Inr) simp

theorem template_prefix_witness:
  "prefix MOSAIC_SYSTEM_PROMPT
     (get_system_prompt_with_context (Some ''text'') (Some 100000) (Some ''Single document'') None)
   \<and> drop (length MOSAIC_SYSTEM_PROMPT)
        (get_system_prompt_with_context (Some ''text'') (Some 100000) (Some ''Single document'') None)
      = context_info (Some ''text'') (Some 100000) (Some ''Single document'') None"
  using template_prefix [of "WithContext (Some ''text'') (Some 100000) (Some ''Single document'') None"
      "get_system_prompt_with_context (Some ''text'') (Some 100000) (Some ''Single document'') None"]
  by simp

subsection \<open>The preview\<close>

lemma preview_section_take: "preview_section (Some (take 500 p)) = preview_section (Some p)"
  by (simp only: preview_section_def option.case take_take min.idem)

lemma context_info_sections:
  "context_info ct cl cs cp =
     ''\<newline>\<newline>## Current Task Context\<newline>\<newline>'' @ concat (length_section cl)
       @ concat (type_section ct) @ concat (structure_section cs) @ concat (preview_section cp)"
  by (simp only: context_info_concat context_info_appends_sections concat_append concat.simps
        append_Nil2 append_assoc)

text \<open>
  \<^bold>\<open>Claim C6.\<close> With \<^verbatim>\<open>context_preview\<close> supplied, the addendum is the addendum without
  the preview followed by the preview section, which holds the first \<open>min 500 (length p)\<close>
  characters of the preview between a fixed opening and a fixed closing (the closing
  starts with the line \<^verbatim>\<open>...\<close>); these characters are a contiguous part of the returned
  prompt; and the returned prompt is the same as for the preview cut to its first 500
  characters, so nothing of the preview past position 500 reaches the output.
\<close>

theorem preview_first_500:
  "context_info ct cl cs (Some p) =
     context_info ct cl cs None @ ''\<newline>### Context Preview\<newline>\<newline>```\<newline>''
       @ take (min 500 (length p)) p @ ''\<newline>...\<newline>```\<newline>''
   \<and> sublist (take (min 500 (length p)) p) (get_system_prompt_with_context ct cl cs (Some p))
   \<and> get_system_prompt_with_context ct cl cs (Some p)
       = get_system_prompt_with_context ct cl cs (Some (take 500 p))"
proof -
  have t: "take (min 500 (length p)) p = take 500 p"
    by (cases "500 \<le> length p") (simp_all add: min_def)
  have a: "context_info ct cl cs (Some p) =
     context_info ct cl cs None @ ''\<newline>### Context Preview\<newline>\<newline>```\<newline>''
       @ take 500 p @ ''\<newline>...\<newline>```\<newline>''"
    by (simp only: context_info_sections preview_section_def option.case concat.simps
          append_Nil2 append_assoc)
  have b: "sublist (take 500 p) (get_system_prompt_with_context ct cl cs (Some p))"
    unfolding get_system_prompt_with_context_def a
    by (intro sublist_append_right sublist_append_rightI)
  have c: "context_info ct cl cs (Some (take 500 p)) = context_info ct cl cs (Some p)"
    by (simp only: context_info_sections preview_section_take)
  show ?thesis
    unfolding t using a b c by (simp only: get_system_prompt_with_context_def simp_thms)
qed

subsection \<open>The recommendation lines the builder appends\<close>

lemma filter_length_section:
  "filter (\<lambda>l. l \<in> set [''  - *Recommended Strategy*: Strategy 1 (Direct processing)\<newline>'',
                          ''  - *Recommended Strategy*: Strategy 2 (Chunk and aggregate)\<newline>'',
                          ''  - *Recommended Strategy*: Strategy 3 (Targeted search)\<newline>''])
     (length_section cl) =
   (case cl of
      None \<Rightarrow> []
    | Some n \<Rightarrow>
        [if n < 500000 then ''  - *Recommended Strategy*: Strategy 1 (Direct processing)\<newline>''
         else if n < 2000000 then ''  - *Recommended Strategy*: Strategy 2 (Chunk and aggregate)\<newline>''
         else ''  - *Recommended Strategy*: Strategy 3 (Targeted search)\<newline>''])"
proof (cases cl)
  case None
  then show ?thesis by (simp add: length_section_def)
next
  case (Some n)
  then show ?thesis
    by (cases "n < 500000"; cases "n < 2000000") (simp_all add: length_section_def)
qed

lemma filter_other_sections:
  "filter (\<lambda>l. l \<in> set [''  - *Recommended Strategy*: Strategy 1 (Direct processing)\<newline>'',
                          ''  - *Recommended Strategy*: Strategy 2 (Chunk and aggregate)\<newline>'',
                          ''  - *Recommended Strategy*: Strategy 3 (Targeted search)\<newline>''])
     (type_section ct) = []"
  "filter (\<lambda>l. l \<in> set [''  - *Recommended Strategy*: Strategy 1 (Direct processing)\<newline>'',
                          ''  - *Recommended Strategy*: Strategy 2 (Chunk and aggregate)\<newline>'',
                          ''  - *Recommended Strategy*: Strategy 3 (Targeted search)\<newline>''])
     (structure_section cs) = []"
  "filter (\<lambda>l. l \<in> set [''  - *Recommended Strategy*: Strategy 1 (Direct processing)\<newline>'',
                          ''  - *Recommended Strategy*: Strategy 2 (Chunk and aggregate)\<newline>'',
                          ''  - *Recommended Strategy*: Strategy 3 (Targeted search)\<newline>''])
     (preview_section cp) = []"
proof -
  show "filter (\<lambda>l. l \<in> set [''  - *Recommended Strategy*: Strategy 1 (Direct processing)\<newline>'',
                          ''  - *Recommended Strategy*: Strategy 2 (Chunk and aggregate)\<newline>'',
                          ''  - *Recommended Strategy*: Strategy 3 (Targeted search)\<newline>''])
     (type_section ct) = []"
  proof (cases ct)
    case None
    then show ?thesis by (simp add: type_section_def)
  next
    case (Some t)
    then show ?thesis
      by (cases "lower t \<in> set [''markdown'', ''json'', ''xml'', ''html'', ''code'']")
        (simp_all only: type_section_def option.case if_True if_False, simp_all)
  qed
  show "filter (\<lambda>l. l \<in> set [''  - *Recommended Strategy*: Strategy 1 (Direct processing)\<newline>'',
                          ''  - *Recommended Strategy*: Strategy 2 (Chunk and aggregate)\<newline>'',
                          ''  - *Recommended Strategy*: Strategy 3 (Targeted search)\<newline>''])
     (structure_section cs) = []"
    by (cases cs) (simp_all add: structure_section_def)
  show "filter (\<lambda>l. l \<in> set [''  - *Recommended Strategy*: Strategy 1 (Direct processing)\<newline>'',
                          ''  - *Recommended Strategy*: Strategy 2 (Chunk and aggregate)\<newline>'',
                          ''  - *Recommended Strategy*: Strategy 3 (Targeted search)\<newline>''])
     (preview_section cp) = []"
    by (cases cp) (simp_all add: preview_section_def)
qed

lemma count_length_lines:
  "length (filter (\<lambda>l. l \<in> set [''  - *Recommended Strategy*: Strategy 1 (Direct processing)\<newline>'',
                          ''  - *Recommended Strategy*: Strategy 2 (Chunk and aggregate)\<newline>'',
                          ''  - *Recommended Strategy*: Strategy 3 (Targeted search)\<newline>''])
     (context_info_appends ct cl cs cp)) = (if cl = None then 0 else 1)"
proof -
  have hdr: "filter (\<lambda>l. l \<in> set [''  - *Recommended Strategy*: Strategy 1 (Direct processing)\<newline>'',
                          ''  - *Recommended Strategy*: Strategy 2 (Chunk and aggregate)\<newline>'',
                          ''  - *Recommended Strategy*: Strategy 3 (Targeted search)\<newline>''])
      [''\<newline>\<newline>## Current Task Context\<newline>\<newline>''] = []"
    by simp
  show ?thesis
    unfolding context_info_appends_sections filter_append hdr filter_length_section
      filter_other_sections
    by (cases cl) simp_all
qed

subsection \<open>Order of the sections\<close>

lemma length_line_then_type_line:
  "\<exists>a b c. context_info (Some t) (Some n) cs cp
     = a @ (''- **Context Length**: '' @ format_comma n @ '' characters\<newline>'') @ b
         @ (''- **Context Type**: '' @ t @ ''\<newline>'') @ c"
proof (intro exI)
  show "context_info (Some t) (Some n) cs cp
     = ''\<newline>\<newline>## Current Task Context\<newline>\<newline>''
         @ (''- **Context Length**: '' @ format_comma n @ '' characters\<newline>'')
         @ (if n < 500000
            then ''  - *Recommended Strategy*: Strategy 1 (Direct processing)\<newline>''
            else if n < 2000000
            then ''  - *Recommended Strategy*: Strategy 2 (Chunk and aggregate)\<newline>''
            else ''  - *Recommended Strategy*: Strategy 3 (Targeted search)\<newline>'')
         @ (''- **Context Type**: '' @ t @ ''\<newline>'')
         @ (concat (if lower t \<in> set [''markdown'', ''json'', ''xml'', ''html'', ''code'']
                    then [''  - *Recommended Strategy*: Strategy 4 (Structure-aware chunking)\<newline>'']
                    else [])
            @ concat (structure_section cs) @ concat (preview_section cp))"
    by (simp only: context_info_sections length_section_def type_section_def option.case
          concat.simps append_Nil2 append_assoc)
qed

lemma addendum_sections:
  "\<exists>L T S P.
     (\<forall>ct cl cs cp.
        context_info ct cl cs cp
          = ''\<newline>\<newline>## Current Task Context\<newline>\<newline>'' @ L cl @ T ct @ S cs @ P cp)
     \<and> L None = [] \<and> T None = [] \<and> S None = [] \<and> P None = []
     \<and> (\<forall>n. prefix (''- **Context Length**: '' @ format_comma n @ '' characters\<newline>'')
              (L (Some n)))
     \<and> (\<forall>t. prefix (''- **Context Type**: '' @ t @ ''\<newline>'') (T (Some t)))
     \<and> (\<forall>s. S (Some s) = ''- **Structure**: '' @ s @ ''\<newline>'')
     \<and> (\<forall>p. P (Some p)
              = ''\<newline>### Context Preview\<newline>\<newline>```\<newline>'' @ take 500 p
                  @ ''\<newline>...\<newline>```\<newline>'')"
proof (intro exI conjI allI)
  show "context_info ct cl cs cp
          = ''\<newline>\<newline>## Current Task Context\<newline>\<newline>'' @ concat (length_section cl)
              @ concat (type_section ct) @ concat (structure_section cs)
              @ concat (preview_section cp)" for ct cl cs cp
    by (rule context_info_sections)
  show "concat (length_section None) = []" by (simp add: length_section_def)
  show "concat (type_section None) = []" by (simp add: type_section_def)
  show "concat (structure_section None) = []" by (simp add: structure_section_def)
  show "concat (preview_section None) = []" by (simp add: preview_section_def)
  show "prefix (''- **Context Length**: '' @ format_comma n @ '' characters\<newline>'')
          (concat (length_section (Some n)))" for n
    by (simp only: length_section_def option.case concat.simps prefix_append append_Nil2
          prefix_order.refl simp_thms)
  show "prefix (''- **Context Type**: '' @ t @ ''\<newline>'') (concat (type_section (Some t)))" for t
    by (simp only: type_section_def option.case concat.simps prefixI)
  show "concat (structure_section (Some s)) = ''- **Structure**: '' @ s @ ''\<newline>''" for s
    by (simp only: structure_section_def option.case concat.simps append_Nil2)
  show "concat (preview_section (Some p))
          = ''\<newline>### Context Preview\<newline>\<newline>```\<newline>'' @ take 500 p
              @ ''\<newline>...\<newline>```\<newline>''" for p
    by (simp only: preview_section_def option.case concat.simps append_Nil2)
qed

text \<open>
  \<^bold>\<open>Claim C2, as amended.\<close> The addendum is the header followed by one block for each
  parameter, each block depending on its own parameter only and empty when that parameter
  is \<^verbatim>\<open>None\<close>, in the order context length, context type, context structure, context
  preview. The block of a supplied length starts with its \<^verbatim>\<open>Context Length\<close> line, the
  block of a supplied type starts with its \<^verbatim>\<open>Context Type\<close> line, and the other two
  blocks are the \<^verbatim>\<open>Structure\<close> line and the preview section. So an omitted parameter
  contributes nothing, and the Context Length line comes before the Context Type line (the
  source tests \<^verbatim>\<open>context_length\<close> first, line 865, and \<^verbatim>\<open>context_type\<close> second,
  line 876), not after it as the parameter order would have it.
\<close>

theorem addendum_sections_in_order:
  "(\<exists>L T S P.
     (\<forall>ct cl cs cp.
        context_info ct cl cs cp
          = ''\<newline>\<newline>## Current Task Context\<newline>\<newline>'' @ L cl @ T ct @ S cs @ P cp)
     \<and> L None = [] \<and> T None = [] \<and> S None = [] \<and> P None = []
     \<and> (\<forall>n. prefix (''- **Context Length**: '' @ format_comma n @ '' characters\<newline>'')
              (L (Some n)))
     \<and> (\<forall>t. prefix (''- **Context Type**: '' @ t @ ''\<newline>'') (T (Some t)))
     \<and> (\<forall>s. S (Some s) = ''- **Structure**: '' @ s @ ''\<newline>'')
     \<and> (\<forall>p. P (Some p)
              = ''\<newline>### Context Preview\<newline>\<newline>```\<newline>'' @ take 500 p
                  @ ''\<newline>...\<newline>```\<newline>''))
   \<and> (\<forall>t n cs cp. \<exists>a b c.
         context_info (Some t) (Some n) cs cp
           = a @ (''- **Context Length**: '' @ format_comma n @ '' characters\<newline>'') @ b
               @ (''- **Context Type**: '' @ t @ ''\<newline>'') @ c)"
  by (intro conjI allI, rule addendum_sections, rule length_line_then_type_line)

lemma digit_char_eqI:
  assumes "(of_char c :: nat) = 48 + d" shows "digit_char d = c"
proof (rule of_char_eqI [where ?'a = nat])
  have "48 + d < 256" using nat_of_char_less_256 [of c] assms by simp
  then show "(of_char (digit_char d) :: nat) = of_char c"
    using assms by (simp add: digit_char_def)
qed

lemma digit_char_values:
  "digit_char 0 = CHR ''0''" "digit_char (Suc 0) = CHR ''1''" "digit_char 2 = CHR ''2''"
  "digit_char 3 = CHR ''3''" "digit_char 4 = CHR ''4''" "digit_char 5 = CHR ''5''"
  "digit_char 6 = CHR ''6''" "digit_char 7 = CHR ''7''" "digit_char 8 = CHR ''8''"
  "digit_char 9 = CHR ''9''"
  using digit_char_eqI [of "CHR ''0''" 0] digit_char_eqI [of "CHR ''1''" 1]
    digit_char_eqI [of "CHR ''2''" 2] digit_char_eqI [of "CHR ''3''" 3]
    digit_char_eqI [of "CHR ''4''" 4] digit_char_eqI [of "CHR ''5''" 5]
    digit_char_eqI [of "CHR ''6''" 6] digit_char_eqI [of "CHR ''7''" 7]
    digit_char_eqI [of "CHR ''8''" 8] digit_char_eqI [of "CHR ''9''" 9]
  by simp_all

lemma format_comma_100000: "format_comma 100000 = ''100,000''"
  by (simp add: format_comma_def decimal.simps group_thousands.simps digit_char_values)

lemma context_info_text_100000:
  "context_info (Some ''text'') (Some 100000) None None =
     ''\<newline>\<newline>## Current Task Context\<newline>\<newline>- **Context Length**: 100,000 characters\<newline>  - *Recommended Strategy*: Strategy 1 (Direct processing)\<newline>- **Context Type**: text\<newline>''"
proof -
  have "lower ''text'' \<notin> set [''markdown'', ''json'', ''xml'', ''html'', ''code'']"
    by (simp add: lower_def)
  then show ?thesis
    by (simp add: context_info_sections length_section_def type_section_def
          structure_section_def preview_section_def format_comma_100000)
qed

text \<open>
  \<^bold>\<open>Claim C2 as stated fails.\<close> For \<^verbatim>\<open>context_type="text"\<close> and
  \<^verbatim>\<open>context_length=100000\<close> the Context Type line does not appear before the Context
  Length line: it is the other way round.
\<close>

theorem type_before_length_counterexample:
  "\<not> appears_before ''- **Context Type**'' ''- **Context Length**''
       (context_info (Some ''text'') (Some 100000) None None)
   \<and> appears_before ''- **Context Length**'' ''- **Context Type**''
       (context_info (Some ''text'') (Some 100000) None None)
   \<and> index_of ''- **Context Length**'' (context_info (Some ''text'') (Some 100000) None None)
       = Some 27
   \<and> index_of ''- **Context Type**'' (context_info (Some ''text'') (Some 100000) None None)
       = Some 127"
proof -
  have l: "index_of ''- **Context Length**''
      (context_info (Some ''text'') (Some 100000) None None) = Some 27"
    unfolding context_info_text_100000 by simp
  have t: "index_of ''- **Context Type**''
      (context_info (Some ''text'') (Some 100000) None None) = Some 127"
    unfolding context_info_text_100000 by simp
  show ?thesis by (simp add: appears_before_def l t)
qed

subsection \<open>The research prompt\<close>

lemma research_addendum_text:
  \<open>research_addendum topic document_type = ''

## Current Research Task

You are tasked with researching and writing a '' @ document_type @ '' on the topic: **'' @ topic @ ''**

### Recommended Approach

1. **Research Phase** (Pattern D):
   - Check memory_search("'' @ topic @ ''", k=10) for prior knowledge
   - Define 4-6 key research questions
   - Use llm_query() to investigate each question
   - Gather and organize findings

2. **Planning Phase**:
   - Create a detailed outline based on findings
   - Identify main sections (Introduction, Background, Analysis, etc.)
   - Note key points for each section

3. **Writing Phase**:
   - Write each section using llm_query()
   - Maintain coherence between sections
   - Include specific details and examples
   - Build progressively on previous sections

4. **Review Phase**:
   - Check completeness and flow
   - Verify all requirements are met
   - Ensure proper structure and formatting

### Expected Output

Return the complete '' @ document_type @ '' using FINAL() with proper formatting, citations, and structure.

**Now proceed with the research and writing task using Pattern D from the main prompt.**
''\<close>
  unfolding research_addendum_def by (rule refl)

lemma research_addendum_task:
  \<open>sublist (''researching and writing a '' @ document_type @ '' on the topic: **'' @ topic @ ''**'') (research_addendum topic document_type)\<close>
proof -
  have \<open>research_addendum topic document_type = (''

## Current Research Task

You are tasked with '') @ (''researching and writing a '' @ document_type @ '' on the topic: **'' @ topic @ ''**'') @ (''

### Recommended Approach

1. **Research Phase** (Pattern D):
   - Check memory_search("'' @ topic @ ''", k=10) for prior knowledge
   - Define 4-6 key research questions
   - Use llm_query() to investigate each question
   - Gather and organize findings

2. **Planning Phase**:
   - Create a detailed outline based on findings
   - Identify main sections (Introduction, Background, Analysis, etc.)
   - Note key points for each section

3. **Writing Phase**:
   - Write each section using llm_query()
   - Maintain coherence between sections
   - Include specific details and examples
   - Build progressively on previous sections

4. **Review Phase**:
   - Check completeness and flow
   - Verify all requirements are met
   - Ensure proper structure and formatting

### Expected Output

Return the complete '' @ document_type @ '' using FINAL() with proper formatting, citations, and structure.

**Now proceed with the research and writing task using Pattern D from the main prompt.**
'')\<close>
    by (simp add: research_addendum_def)
  then show ?thesis by (simp only: sublist_appendI)
qed

lemma research_addendum_search:
  \<open>sublist (''memory_search("'' @ topic @ ''", k=10)'') (research_addendum topic document_type)\<close>
proof -
  have \<open>research_addendum topic document_type = (''

## Current Research Task

You are tasked with researching and writing a '' @ document_type @ '' on the topic: **'' @ topic @ ''**

### Recommended Approach

1. **Research Phase** (Pattern D):
   - Check '') @ (''memory_search("'' @ topic @ ''", k=10)'') @ ('' for prior knowledge
   - Define 4-6 key research questions
   - Use llm_query() to investigate each question
   - Gather and organize findings

2. **Planning Phase**:
   - Create a detailed outline based on findings
   - Identify main sections (Introduction, Background, Analysis, etc.)
   - Note key points for each section

3. **Writing Phase**:
   - Write each section using llm_query()
   - Maintain coherence between sections
   - Include specific details and examples
   - Build progressively on previous sections

4. **Review Phase**:
   - Check completeness and flow
   - Verify all requirements are met
   - Ensure proper structure and formatting

### Expected Output

Return the complete '' @ document_type @ '' using FINAL() with proper formatting, citations, and structure.

**Now proceed with the research and writing task using Pattern D from the main prompt.**
'')\<close>
    by (simp add: research_addendum_def)
  then show ?thesis by (simp only: sublist_appendI)
qed

lemma research_addendum_output:
  \<open>sublist (''Return the complete '' @ document_type @ '' using FINAL()'') (research_addendum topic document_type)\<close>
proof -
  have \<open>research_addendum topic document_type = (''

## Current Research Task

You are tasked with researching and writing a '' @ document_type @ '' on the topic: **'' @ topic @ ''**

### Recommended Approach

1. **Research Phase** (Pattern D):
   - Check memory_search("'' @ topic @ ''", k=10) for prior knowledge
   - Define 4-6 key research questions
   - Use llm_query() to investigate each question
   - Gather and organize findings

2. **Planning Phase**:
   - Create a detailed outline based on findings
   - Identify main sections (Introduction, Background, Analysis, etc.)
   - Note key points for each section

3. **Writing Phase**:
   - Write each section using llm_query()
   - Maintain coherence between sections
   - Include specific details and examples
   - Build progressively on previous sections

4. **Review Phase**:
   - Check completeness and flow
   - Verify all requirements are met
   - Ensure proper structure and formatting

### Expected Output

'') @ (''Return the complete '' @ document_type @ '' using FINAL()'') @ ('' with proper formatting, citations, and structure.

**Now proceed with the research and writing task using Pattern D from the main prompt.**
'')\<close>
    by (simp add: research_addendum_def)
  then show ?thesis by (simp only: sublist_appendI)
qed

lemma research_addendum_pattern_d:
  \<open>sublist (''Pattern D'') (research_addendum topic document_type)\<close>
proof -
  have \<open>research_addendum topic document_type = (''

## Current Research Task

You are tasked with researching and writing a '' @ document_type @ '' on the topic: **'' @ topic @ ''**

### Recommended Approach

1. **Research Phase** ('') @ (''Pattern D'') @ (''):
   - Check memory_search("'' @ topic @ ''", k=10) for prior knowledge
   - Define 4-6 key research questions
   - Use llm_query() to investigate each question
   - Gather and organize findings

2. **Planning Phase**:
   - Create a detailed outline based on findings
   - Identify main sections (Introduction, Background, Analysis, etc.)
   - Note key points for each section

3. **Writing Phase**:
   - Write each section using llm_query()
   - Maintain coherence between sections
   - Include specific details and examples
   - Build progressively on previous sections

4. **Review Phase**:
   - Check completeness and flow
   - Verify all requirements are met
   - Ensure proper structure and formatting

### Expected Output

Return the complete '' @ document_type @ '' using FINAL() with proper formatting, citations, and structure.

**Now proceed with the research and writing task using Pattern D from the main prompt.**
'')\<close>
    by (simp add: research_addendum_def)
  then show ?thesis by (simp only: sublist_appendI)
qed

lemma research_addendum_phases:
  \<open>\<exists>a b c d e. research_addendum topic document_type = a @ ''1. **Research Phase** (Pattern D):'' @ b @ ''2. **Planning Phase**:'' @ c @ ''3. **Writing Phase**:'' @ d @ ''4. **Review Phase**:'' @ e\<close>
proof (intro exI)
  show \<open>research_addendum topic document_type = (''

## Current Research Task

You are tasked with researching and writing a '' @ document_type @ '' on the topic: **'' @ topic @ ''**

### Recommended Approach

'') @ ''1. **Research Phase** (Pattern D):'' @ (''
   - Check memory_search("'' @ topic @ ''", k=10) for prior knowledge
   - Define 4-6 key research questions
   - Use llm_query() to investigate each question
   - Gather and organize findings

'') @ ''2. **Planning Phase**:'' @ (''
   - Create a detailed outline based on findings
   - Identify main sections (Introduction, Background, Analysis, etc.)
   - Note key points for each section

'') @ ''3. **Writing Phase**:'' @ (''
   - Write each section using llm_query()
   - Maintain coherence between sections
   - Include specific details and examples
   - Build progressively on previous sections

'') @ ''4. **Review Phase**:'' @ (''
   - Check completeness and flow
   - Verify all requirements are met
   - Ensure proper structure and formatting

### Expected Output

Return the complete '' @ document_type @ '' using FINAL() with proper formatting, citations, and structure.

**Now proceed with the research and writing task using Pattern D from the main prompt.**
'')\<close>
    by (simp add: research_addendum_def)
qed

lemma research_addendum_topic: "sublist topic (research_addendum topic document_type)"
  unfolding research_addendum_def
  by (rule sublist_append_right, rule sublist_append_right, rule sublist_append_right,
      rule sublist_append_rightI)

text \<open>
  \<^bold>\<open>Claim C8.\<close> \<^verbatim>\<open>get_system_prompt_for_research\<close> returns the template followed by
  the research addendum, and the addendum is the text of lines 902 to 937 of the source
  with \<^verbatim>\<open>document_type\<close>, \<^verbatim>\<open>topic\<close>, \<^verbatim>\<open>topic\<close> and \<^verbatim>\<open>document_type\<close> put in as they
  are given, whatever characters they hold. A call without \<^verbatim>\<open>document_type\<close> uses
  \<^verbatim>\<open>research paper\<close>. The addendum describes a workflow of four phases, in this order:
  Research Phase (Pattern D), Planning Phase, Writing Phase, Review Phase. The document
  type and the topic stand in the task line, the topic in the \<^verbatim>\<open>memory_search\<close> call of the
  first phase, and the document type in the \<^verbatim>\<open>FINAL()\<close> line of the expected output. For
  the topic \<^verbatim>\<open>Quantum Computing\<close> and the document type \<^verbatim>\<open>thesis\<close> the addendum holds the
  task line with both, and the returned prompt contains the topic.
\<close>

theorem research_prompt_verbatim:
  \<open>research_addendum topic document_type = ''

## Current Research Task

You are tasked with researching and writing a '' @ document_type @ '' on the topic: **'' @ topic @ ''**

### Recommended Approach

1. **Research Phase** (Pattern D):
   - Check memory_search("'' @ topic @ ''", k=10) for prior knowledge
   - Define 4-6 key research questions
   - Use llm_query() to investigate each question
   - Gather and organize findings

2. **Planning Phase**:
   - Create a detailed outline based on findings
   - Identify main sections (Introduction, Background, Analysis, etc.)
   - Note key points for each section

3. **Writing Phase**:
   - Write each section using llm_query()
   - Maintain coherence between sections
   - Include specific details and examples
   - Build progressively on previous sections

4. **Review Phase**:
   - Check completeness and flow
   - Verify all requirements are met
   - Ensure proper structure and formatting

### Expected Output

Return the complete '' @ document_type @ '' using FINAL() with proper formatting, citations, and structure.

**Now proceed with the research and writing task using Pattern D from the main prompt.**
''
   \<and> get_system_prompt_for_research topic document_type
       = MOSAIC_SYSTEM_PROMPT @ research_addendum topic document_type
   \<and> run (ForResearch (Some topic) None)
       = Inr (get_system_prompt_for_research topic ''research paper'')
   \<and> run (ForResearch (Some topic) (Some document_type))
       = Inr (get_system_prompt_for_research topic document_type)
   \<and> (\<exists>a b c d e. research_addendum topic document_type = a @ ''1. **Research Phase** (Pattern D):'' @ b @ ''2. **Planning Phase**:'' @ c @ ''3. **Writing Phase**:'' @ d @ ''4. **Review Phase**:'' @ e)
   \<and> sublist (''researching and writing a '' @ document_type @ '' on the topic: **'' @ topic @ ''**'') (research_addendum topic document_type)
   \<and> sublist (''memory_search("'' @ topic @ ''", k=10)'') (research_addendum topic document_type)
   \<and> sublist (''Return the complete '' @ document_type @ '' using FINAL()'') (research_addendum topic document_type)
   \<and> sublist ''Pattern D'' (research_addendum topic document_type)
   \<and> sublist ''researching and writing a thesis on the topic: **Quantum Computing**'' (research_addendum ''Quantum Computing'' ''thesis'')
   \<and> sublist ''Quantum Computing'' (get_system_prompt_for_research ''Quantum Computing'' ''thesis'')\<close>
proof -
  have ex: \<open>sublist ''researching and writing a thesis on the topic: **Quantum Computing**'' (research_addendum ''Quantum Computing'' ''thesis'')\<close>
    using research_addendum_task [of "''thesis''" "''Quantum Computing''"] by simp
  have q: \<open>sublist ''Quantum Computing''
      (get_system_prompt_for_research ''Quantum Computing'' ''thesis'')\<close>
    unfolding get_system_prompt_for_research_def
    by (rule sublist_append_right) (rule research_addendum_topic)
  have c: \<open>get_system_prompt_for_research topic document_type
       = MOSAIC_SYSTEM_PROMPT @ research_addendum topic document_type\<close>
    by (rule get_system_prompt_for_research_def)
  have d: \<open>run (ForResearch (Some topic) None)
       = Inr (get_system_prompt_for_research topic ''research paper'')\<close>
    \<open>run (ForResearch (Some topic) (Some document_type))
       = Inr (get_system_prompt_for_research topic document_type)\<close>
    by (rule run.simps)+
  from research_addendum_text c d research_addendum_phases research_addendum_task
    research_addendum_search research_addendum_output research_addendum_pattern_d ex q
  show ?thesis by (intro conjI)
qed

subsection \<open>Recommendation texts in the addendum\<close>

lemma sublist_split_at:
  assumes "c \<notin> set pat"
  shows "sublist pat (v @ c # w) \<longleftrightarrow> sublist pat v \<or> sublist pat w"
proof
  assume "sublist pat (v @ c # w)"
  then consider "sublist pat v" | "sublist pat (c # w)"
    | xs1 xs2 where "pat = xs1 @ xs2" "suffix xs1 v" "prefix xs2 (c # w)"
    by (auto simp: sublist_append)
  then show "sublist pat v \<or> sublist pat w"
  proof cases
    case 1 then show ?thesis by simp
  next
    case 2
    then have "prefix pat (c # w) \<or> sublist pat w" by (simp add: sublist_Cons_right)
    moreover have "prefix pat (c # w) \<Longrightarrow> pat = []"
      using assms by (cases pat) auto
    ultimately show ?thesis by auto
  next
    case 3
    have "xs2 = []" using 3(1,3) assms by (cases xs2) auto
    with 3 have "suffix pat v" by simp
    then show ?thesis by (auto simp: suffix_imp_sublist)
  qed
next
  assume "sublist pat v \<or> sublist pat w"
  then show "sublist pat (v @ c # w)"
  proof
    assume "sublist pat v" then show ?thesis by (rule sublist_append_left)
  next
    assume "sublist pat w"
    then have "sublist pat (c # w)" by (simp add: sublist_Cons_right)
    then show ?thesis by (rule sublist_append_right)
  qed
qed

lemma sublist_skip:
  assumes "x \<notin> set v"
  shows "sublist (x # xs) (v @ w) \<longleftrightarrow> sublist (x # xs) w"
proof
  assume "sublist (x # xs) (v @ w)"
  then consider "sublist (x # xs) v" | "sublist (x # xs) w"
    | xs1 xs2 where "x # xs = xs1 @ xs2" "suffix xs1 v" "prefix xs2 w"
    by (auto simp: sublist_append)
  then show "sublist (x # xs) w"
  proof cases
    case 1
    then have "set (x # xs) \<subseteq> set v" by (rule set_mono_sublist)
    with assms show ?thesis by simp
  next
    case 2 then show ?thesis .
  next
    case 3
    show ?thesis
    proof (cases xs1)
      case Nil
      with 3 have "prefix (x # xs) w" by simp
      then show ?thesis by (rule prefix_imp_sublist)
    next
      case (Cons y ys)
      with 3(1) have "y = x" by simp
      with Cons 3(2) have "x \<in> set v" by (auto dest: set_mono_suffix)
      with assms show ?thesis by simp
    qed
  qed
next
  assume "sublist (x # xs) w" then show "sublist (x # xs) (v @ w)"
    by (rule sublist_append_right)
qed

lemma sublist_absent:
  assumes "x \<notin> set v"
  shows "\<not> sublist (x # xs) v"
proof
  assume "sublist (x # xs) v"
  then have "set (x # xs) \<subseteq> set v" by (rule set_mono_sublist)
  with assms show False by simp
qed

lemma sublist_boundary:
  assumes "c \<notin> set pat" and "a = [] \<or> last a = c"
  shows "sublist pat (a @ b) \<longleftrightarrow> sublist pat a \<or> sublist pat b"
proof (cases "a = []")
  case True
  have "sublist pat [] \<Longrightarrow> sublist pat b" by simp
  with True show ?thesis by auto
next
  case False
  with assms(2) have a: "a = butlast a @ [c]" by (metis append_butlast_last_id)
  have "sublist pat (a @ b) = sublist pat (butlast a @ c # b)"
    by (subst a) simp
  also have "\<dots> \<longleftrightarrow> sublist pat (butlast a) \<or> sublist pat b"
    by (rule sublist_split_at [OF assms(1)])
  finally have 1: "sublist pat (a @ b) \<longleftrightarrow> sublist pat (butlast a) \<or> sublist pat b" .
  have "sublist pat a = sublist pat (butlast a @ c # [])"
    by (subst a) simp
  also have "\<dots> \<longleftrightarrow> sublist pat (butlast a) \<or> sublist pat []"
    by (rule sublist_split_at [OF assms(1)])
  finally have 2: "sublist pat a \<longleftrightarrow> sublist pat (butlast a) \<or> sublist pat []" .
  have "sublist pat [] \<Longrightarrow> sublist pat b" by simp
  with 1 2 show ?thesis by blast
qed

lemma length_step_u:
  "(case cl of
      None \<Rightarrow> added
    | Some n \<Rightarrow>
        (let added = added @ [u ''- **Context Length**: '' @ u (format_comma n) @ u '' characters\<newline>'']
         in if n < 500000
            then added @ [u ''  - *Recommended Strategy*: Strategy 1 (Direct processing)\<newline>'']
            else if n < 2000000
            then added @ [u ''  - *Recommended Strategy*: Strategy 2 (Chunk and aggregate)\<newline>'']
            else added @ [u ''  - *Recommended Strategy*: Strategy 3 (Targeted search)\<newline>'']))
   = added @ length_section_u cl"
  unfolding length_section_u_def Let_def
  by (cases cl) (simp_all only: option.case append_Nil2 append_assoc append_Cons append_Nil if_distrib [of "\<lambda>x. [x]"] if_distrib [of "(@) _"] if_distrib [of "(#) _"])

lemma type_step_u:
  "(case ct of
      None \<Rightarrow> added
    | Some t \<Rightarrow>
        (let added = added @ [u ''- **Context Type**: '' @ t @ u ''\<newline>'']
         in if lower_u t \<in> set [u ''markdown'', u ''json'', u ''xml'', u ''html'', u ''code'']
            then added @ [u ''  - *Recommended Strategy*: Strategy 4 (Structure-aware chunking)\<newline>'']
            else added))
   = added @ type_section_u ct"
  unfolding type_section_u_def Let_def
  by (cases ct) (simp_all only: option.case append_Nil2 append_assoc append_Cons append_Nil if_distrib [of "(@) _"] if_distrib [of "(#) _"])

lemma structure_step_u:
  "(case cs of None \<Rightarrow> added | Some s \<Rightarrow> added @ [u ''- **Structure**: '' @ s @ u ''\<newline>''])
   = added @ structure_section_u cs"
  unfolding structure_section_u_def
  by (cases cs) (simp_all only: option.case append_Nil2)

lemma preview_step_u:
  "(case cp of
      None \<Rightarrow> added
    | Some p \<Rightarrow>
        added @ [u ''\<newline>### Context Preview\<newline>\<newline>```\<newline>'' @ take 500 p
          @ u ''\<newline>...\<newline>```\<newline>''])
   = added @ preview_section_u cp"
  unfolding preview_section_u_def
  by (cases cp) (simp_all only: option.case append_Nil2)

lemma context_info_appends_u_sections:
  "context_info_appends_u ct cl cs cp =
     [u ''\<newline>\<newline>## Current Task Context\<newline>\<newline>''] @
       length_section_u cl @ type_section_u ct @ structure_section_u cs @ preview_section_u cp"
  unfolding context_info_appends_u_def Let_def
  by (simp only: length_step_u [unfolded Let_def] type_step_u [unfolded Let_def]
        structure_step_u preview_step_u)
     (simp only: append_assoc)

lemma context_info_u_concat:
  "context_info_u a b c d = concat (context_info_appends_u a b c d)"
  unfolding context_info_u_def context_info_appends_u_def Let_def
  by (cases a; cases b; cases c; cases d;
      simp only: option.case concat.simps concat_append append_Nil2 append_assoc if_distrib [of concat]
        split: if_split)

lemma context_info_u_sections:
  "context_info_u ct cl cs cp =
     u ''\<newline>\<newline>## Current Task Context\<newline>\<newline>'' @
       concat (length_section_u cl) @ concat (type_section_u ct) @
       concat (structure_section_u cs) @ concat (preview_section_u cp)"
  by (simp only: context_info_u_concat context_info_appends_u_sections concat_append concat.simps
        append_Nil2)

lemma digit_char_range: "d < 10 \<Longrightarrow> 44 \<le> (of_char (digit_char d) :: nat) \<and> (of_char (digit_char d) :: nat) \<le> 57"
  by (simp add: digit_char_def)

lemma decimal_range: "\<forall>c \<in> set (decimal n). 44 \<le> (of_char c :: nat) \<and> (of_char c :: nat) \<le> 57"
proof (induction n rule: decimal.induct)
  case (1 n)
  show ?case
  proof (cases "n < 10")
    case True
    then show ?thesis by (subst decimal.simps) (simp add: digit_char_range)
  next
    case False
    have "n mod 10 < 10" by simp
    with False 1 show ?thesis by (subst decimal.simps) (simp add: digit_char_range)
  qed
qed

lemma set_group_thousands: "set (group_thousands ds) \<subseteq> insert CHR '','' (set ds)"
proof (induction ds rule: group_thousands.induct)
  case (1 ds)
  show ?case
  proof (cases "length ds \<le> 3")
    case True
    then show ?thesis by (subst group_thousands.simps) auto
  next
    case False
    have "set (take (length ds - 3) ds) \<subseteq> set ds" "set (drop (length ds - 3) ds) \<subseteq> set ds"
      by (rule set_take_subset, rule set_drop_subset)
    with False 1 show ?thesis by (subst group_thousands.simps) auto
  qed
qed

lemma format_comma_range:
  "\<forall>c \<in> set (format_comma n). 44 \<le> (of_char c :: nat) \<and> (of_char c :: nat) \<le> 57"
proof
  fix c assume "c \<in> set (format_comma n)"
  then have "c = CHR ''-'' \<or> c = CHR '','' \<or> c \<in> set (decimal (nat n)) \<or> c \<in> set (decimal (nat (- n)))"
    using set_group_thousands [of "decimal (nat n)"] set_group_thousands [of "decimal (nat (- n))"]
    by (auto simp: format_comma_def split: if_splits)
  then show "44 \<le> (of_char c :: nat) \<and> (of_char c :: nat) \<le> 57"
    using decimal_range [of "nat n"] decimal_range [of "nat (- n)"] by auto
qed

lemma S_notin_format_comma: "83 \<notin> set (u (format_comma n))"
  using format_comma_range [of n] by (auto simp: u_def)

lemma pat_Cons: "u ''Strategy '' @ q = 83 # (u ''trategy '' @ q)"
  by (simp add: u_def)

lemma pat_newline: "10 \<notin> set q \<Longrightarrow> 10 \<notin> set (u ''Strategy '' @ q)"
  by (simp add: u_def)

lemma pat_header: "\<not> sublist (u ''Strategy '' @ q) (u ''\<newline>\<newline>## Current Task Context\<newline>\<newline>'')"
  unfolding pat_Cons by (rule sublist_absent) (simp add: u_def)

lemma pat_line_1:
  "sublist (u ''Strategy '' @ q) (u ''  - *Recommended Strategy*: Strategy 1 (Direct processing)\<newline>'')
     \<longleftrightarrow> prefix q (u ''1 (Direct processing)\<newline>'')"
  by (simp add: u_def sublist_Cons_right)

lemma pat_line_2:
  "sublist (u ''Strategy '' @ q) (u ''  - *Recommended Strategy*: Strategy 2 (Chunk and aggregate)\<newline>'')
     \<longleftrightarrow> prefix q (u ''2 (Chunk and aggregate)\<newline>'')"
  by (simp add: u_def sublist_Cons_right)

lemma pat_line_3:
  "sublist (u ''Strategy '' @ q) (u ''  - *Recommended Strategy*: Strategy 3 (Targeted search)\<newline>'')
     \<longleftrightarrow> prefix q (u ''3 (Targeted search)\<newline>'')"
  by (simp add: u_def sublist_Cons_right)

lemma pat_line_4:
  "sublist (u ''Strategy '' @ q) (u ''  - *Recommended Strategy*: Strategy 4 (Structure-aware chunking)\<newline>'')
     \<longleftrightarrow> prefix q (u ''4 (Structure-aware chunking)\<newline>'')"
  by (simp add: u_def sublist_Cons_right)

lemma pat_not_Nil: "\<not> sublist (u ''Strategy '' @ q) []"
  by (simp add: u_def)

lemma pat_length_section:
  assumes q: "10 \<notin> set q"
  shows "sublist (u ''Strategy '' @ q) (concat (length_section_u cl)) \<longleftrightarrow>
     (\<exists>n. cl = Some n \<and>
        prefix q (if n < 500000 then u ''1 (Direct processing)\<newline>''
                  else if n < 2000000 then u ''2 (Chunk and aggregate)\<newline>''
                  else u ''3 (Targeted search)\<newline>''))"
proof (cases cl)
  case None
  then show ?thesis by (simp add: length_section_u_def u_def)
next
  case (Some n)
  define a where "a = u ''- **Context Length**: '' @ u (format_comma n) @ u '' characters\<newline>''"
  define line where "line =
     (if n < 500000
      then u ''  - *Recommended Strategy*: Strategy 1 (Direct processing)\<newline>''
      else if n < 2000000
      then u ''  - *Recommended Strategy*: Strategy 2 (Chunk and aggregate)\<newline>''
      else u ''  - *Recommended Strategy*: Strategy 3 (Targeted search)\<newline>'')"
  have c: "concat (length_section_u cl) = a @ line"
    by (simp add: Some length_section_u_def a_def line_def)
  have la: "a = [] \<or> last a = 10" by (simp add: a_def u_def)
  have b: "sublist (u ''Strategy '' @ q) (a @ line) \<longleftrightarrow>
      sublist (u ''Strategy '' @ q) a \<or> sublist (u ''Strategy '' @ q) line"
    by (rule sublist_boundary [OF pat_newline [OF q] la])
  have "83 \<notin> set (u ''- **Context Length**: '')" "83 \<notin> set (u '' characters\<newline>'')"
    by (simp_all add: u_def)
  then have "83 \<notin> set a" by (simp add: a_def S_notin_format_comma)
  then have na: "\<not> sublist (u ''Strategy '' @ q) a"
    unfolding pat_Cons by (rule sublist_absent)
  have l: "sublist (u ''Strategy '' @ q) line \<longleftrightarrow>
      prefix q (if n < 500000 then u ''1 (Direct processing)\<newline>''
                else if n < 2000000 then u ''2 (Chunk and aggregate)\<newline>''
                else u ''3 (Targeted search)\<newline>'')"
  proof -
    consider "n < 500000" | "\<not> n < 500000" "n < 2000000" | "\<not> n < 500000" "\<not> n < 2000000"
      by blast
    then show ?thesis
    proof cases
      case 1 then show ?thesis by (simp only: line_def if_True pat_line_1)
    next
      case 2 then show ?thesis by (simp only: line_def if_True if_False pat_line_2)
    next
      case 3 then show ?thesis by (simp only: line_def if_False pat_line_3)
    qed
  qed
  show ?thesis unfolding c b by (simp only: na l Some option.inject simp_thms ex_simps)
qed

lemma pat_type_section:
  assumes q: "10 \<notin> set q"
  shows "sublist (u ''Strategy '' @ q) (concat (type_section_u ct)) \<longleftrightarrow>
     (\<exists>t. ct = Some t \<and>
        lower_u t \<in> set [u ''markdown'', u ''json'', u ''xml'', u ''html'', u ''code''] \<and>
        prefix q (u ''4 (Structure-aware chunking)\<newline>''))
     \<or> sublist (u ''Strategy '' @ q) (supplied ct)"
proof (cases ct)
  case None
  then show ?thesis by (simp add: type_section_u_def supplied_def u_def)
next
  case (Some t)
  define a where "a = u ''- **Context Type**: '' @ t @ u ''\<newline>''"
  define line where "line =
     concat (if lower_u t \<in> set [u ''markdown'', u ''json'', u ''xml'', u ''html'', u ''code'']
       then [u ''  - *Recommended Strategy*: Strategy 4 (Structure-aware chunking)\<newline>'']
       else [])"
  have c: "concat (type_section_u ct) = a @ line"
    unfolding Some type_section_u_def a_def line_def by (simp only: option.case concat.simps)
  have la: "a = [] \<or> last a = 10" by (simp add: a_def u_def)
  have b: "sublist (u ''Strategy '' @ q) (a @ line) \<longleftrightarrow>
      sublist (u ''Strategy '' @ q) a \<or> sublist (u ''Strategy '' @ q) line"
    by (rule sublist_boundary [OF pat_newline [OF q] la])
  have "a = (u ''- **Context Type**: '' @ t) @ 10 # []" by (simp add: a_def u_def)
  then have "sublist (u ''Strategy '' @ q) a \<longleftrightarrow>
      sublist (u ''Strategy '' @ q) (u ''- **Context Type**: '' @ t) \<or> sublist (u ''Strategy '' @ q) []"
    by (simp only: sublist_split_at [OF pat_newline [OF q]])
  moreover have "83 \<notin> set (u ''- **Context Type**: '')" by (simp add: u_def)
  then have "sublist (u ''Strategy '' @ q) (u ''- **Context Type**: '' @ t) \<longleftrightarrow>
      sublist (u ''Strategy '' @ q) t"
    unfolding pat_Cons by (rule sublist_skip)
  ultimately have sa: "sublist (u ''Strategy '' @ q) a \<longleftrightarrow> sublist (u ''Strategy '' @ q) t"
    by (simp only: pat_not_Nil simp_thms)
  have s: "supplied ct = t" by (simp add: Some supplied_def)
  show ?thesis
  proof (cases "lower_u t \<in> set [u ''markdown'', u ''json'', u ''xml'', u ''html'', u ''code'']")
    case True
    then have "line = u ''  - *Recommended Strategy*: Strategy 4 (Structure-aware chunking)\<newline>''"
      by (simp only: line_def if_True concat.simps append_Nil2)
    then have l: "sublist (u ''Strategy '' @ q) line \<longleftrightarrow> prefix q (u ''4 (Structure-aware chunking)\<newline>'')"
      by (simp only: pat_line_4)
    show ?thesis
      unfolding c b sa l s unfolding Some using True by (simp only: option.inject simp_thms ex_simps) blast
  next
    case False
    then have "line = []" by (simp only: line_def if_False concat.simps)
    then have l: "\<not> sublist (u ''Strategy '' @ q) line" by (simp only: pat_not_Nil not_False_eq_True)
    show ?thesis
      unfolding c b sa s unfolding Some using False l by (simp only: option.inject simp_thms ex_simps)
  qed
qed

lemma pat_structure_section:
  assumes q: "10 \<notin> set q"
  shows "sublist (u ''Strategy '' @ q) (concat (structure_section_u cs)) \<longleftrightarrow>
     sublist (u ''Strategy '' @ q) (supplied cs)"
proof (cases cs)
  case None
  then show ?thesis by (simp add: structure_section_u_def supplied_def)
next
  case (Some s)
  have "concat (structure_section_u cs) = (u ''- **Structure**: '' @ s) @ 10 # []"
    by (simp add: Some structure_section_u_def u_def)
  then have "sublist (u ''Strategy '' @ q) (concat (structure_section_u cs)) \<longleftrightarrow>
      sublist (u ''Strategy '' @ q) (u ''- **Structure**: '' @ s) \<or> sublist (u ''Strategy '' @ q) []"
    by (simp only: sublist_split_at [OF pat_newline [OF q]])
  moreover have "sublist (u ''Strategy '' @ q) (u ''- **Structure**: '' @ s) \<longleftrightarrow>
      sublist (u ''Strategy '' @ q) s"
    by (simp add: u_def sublist_Cons_right)
  ultimately show ?thesis
    by (simp only: pat_not_Nil simp_thms Some supplied_def option.case)
qed

lemma pat_preview_section:
  assumes q: "10 \<notin> set q"
  shows "sublist (u ''Strategy '' @ q) (concat (preview_section_u cp)) \<longleftrightarrow>
     sublist (u ''Strategy '' @ q) (take 500 (supplied cp))"
proof (cases cp)
  case None
  then show ?thesis by (simp add: preview_section_u_def supplied_def)
next
  case (Some p)
  define a where "a = u ''\<newline>### Context Preview\<newline>\<newline>```\<newline>''"
  define z where "z = u ''...\<newline>```\<newline>''"
  have c: "concat (preview_section_u cp) = a @ (take 500 p @ 10 # z)"
    by (simp add: Some preview_section_u_def a_def z_def u_def)
  have la: "a = [] \<or> last a = 10" by (simp add: a_def u_def)
  have b: "sublist (u ''Strategy '' @ q) (a @ (take 500 p @ 10 # z)) \<longleftrightarrow>
      sublist (u ''Strategy '' @ q) a \<or> sublist (u ''Strategy '' @ q) (take 500 p @ 10 # z)"
    by (rule sublist_boundary [OF pat_newline [OF q] la])
  have "83 \<notin> set a" by (simp add: a_def u_def)
  then have na: "\<not> sublist (u ''Strategy '' @ q) a"
    unfolding pat_Cons by (rule sublist_absent)
  have "83 \<notin> set z" by (simp add: z_def u_def)
  then have nz: "\<not> sublist (u ''Strategy '' @ q) z"
    unfolding pat_Cons by (rule sublist_absent)
  have m: "sublist (u ''Strategy '' @ q) (take 500 p @ 10 # z) \<longleftrightarrow>
      sublist (u ''Strategy '' @ q) (take 500 p) \<or> sublist (u ''Strategy '' @ q) z"
    by (rule sublist_split_at [OF pat_newline [OF q]])
  show ?thesis
    unfolding c b by (simp only: na nz m simp_thms Some supplied_def option.case)
qed

lemma length_section_u_end:
  "concat (length_section_u cl) = [] \<or> last (concat (length_section_u cl)) = 10"
  by (cases cl) (simp_all add: length_section_u_def u_def)

lemma type_section_u_end:
  "concat (type_section_u ct) = [] \<or> last (concat (type_section_u ct)) = 10"
  by (cases ct) (simp_all add: type_section_u_def u_def)

lemma structure_section_u_end:
  "concat (structure_section_u cs) = [] \<or> last (concat (structure_section_u cs)) = 10"
  by (cases cs) (simp_all add: structure_section_u_def u_def)

lemma header_u_end:
  "u ''\<newline>\<newline>## Current Task Context\<newline>\<newline>'' = [] \<or>
   last (u ''\<newline>\<newline>## Current Task Context\<newline>\<newline>'') = 10"
  by (simp add: u_def)

lemma pat_in_addendum:
  assumes q: "10 \<notin> set q"
  shows "sublist (u ''Strategy '' @ q) (context_info_u ct cl cs cp) \<longleftrightarrow>
     (\<exists>n. cl = Some n \<and>
        prefix q (if n < 500000 then u ''1 (Direct processing)\<newline>''
                  else if n < 2000000 then u ''2 (Chunk and aggregate)\<newline>''
                  else u ''3 (Targeted search)\<newline>''))
     \<or> (\<exists>t. ct = Some t \<and>
        lower_u t \<in> set [u ''markdown'', u ''json'', u ''xml'', u ''html'', u ''code''] \<and>
        prefix q (u ''4 (Structure-aware chunking)\<newline>''))
     \<or> sublist (u ''Strategy '' @ q) (supplied ct)
     \<or> sublist (u ''Strategy '' @ q) (supplied cs)
     \<or> sublist (u ''Strategy '' @ q) (take 500 (supplied cp))"
proof -
  note n = pat_newline [OF q]
  show ?thesis
    unfolding context_info_u_sections
    unfolding sublist_boundary [OF n header_u_end]
      sublist_boundary [OF n length_section_u_end]
      sublist_boundary [OF n type_section_u_end]
      sublist_boundary [OF n structure_section_u_end]
      pat_length_section [OF q] pat_type_section [OF q] pat_structure_section [OF q]
      pat_preview_section [OF q]
    using pat_header [of q] by (simp only: simp_thms disj_assoc)
qed

lemma u_append: "u (a @ b) = u a @ u b"
  by (simp add: u_def)

lemma u_take: "take n (u p) = u (take n p)"
  by (simp add: u_def take_map)

lemma u_Nil: "u [] = []"
  by (simp add: u_def)

lemma u_concat: "concat (map u xs) = u (concat xs)"
  by (induction xs) (simp_all add: u_append u_Nil)

lemma inj_u: "inj u"
proof (rule injI)
  fix a b assume "u a = u b"
  moreover have "inj (of_char :: char \<Rightarrow> nat)" by (rule injI) simp
  ultimately show "a = b" by (simp add: u_def inj_map_eq_map)
qed

lemma u_eq_iff: "u a = u b \<longleftrightarrow> a = b"
  using inj_u by (auto dest: injD)

lemma sublist_u: "sublist (u a) (u b) \<longleftrightarrow> sublist a b"
proof
  assume "sublist (u a) (u b)"
  then obtain a' where "sublist a' b" "u a = u a'"
    unfolding u_def by (auto dest: sublist_map_rightE)
  then show "sublist a b" by (simp add: u_eq_iff)
next
  assume "sublist a b" then show "sublist (u a) (u b)"
    unfolding u_def by (rule map_mono_sublist)
qed

lemma prefix_u: "prefix (u a) (u b) \<longleftrightarrow> prefix a b"
proof
  assume "prefix (u a) (u b)"
  then obtain a' where "prefix a' b" "u a = u a'"
    unfolding u_def by (auto dest: prefix_map_rightE)
  then show "prefix a b" by (simp add: u_eq_iff)
next
  assume "prefix a b" then show "prefix (u a) (u b)"
    unfolding u_def by (rule map_mono_prefix)
qed

lemma lower_code_point_of_char: "lower_code_point (of_char c) = [of_char (lower_char c)]"
proof -
  define n where "n = (of_char c :: nat)"
  have n: "n < 256" unfolding n_def by (rule nat_of_char_less_256)
  show ?thesis
  proof (cases "(65 \<le> n \<and> n \<le> 90) \<or> (192 \<le> n \<and> n \<le> 222 \<and> n \<noteq> 215)")
    case True
    then have "n + 32 < 256" by arith
    then have "(of_char (char_of (n + 32)) :: nat) = n + 32" by simp
    moreover from True have "lower_code_point n = [n + 32]"
      unfolding lower_code_point_def by simp
    moreover have "lower_char c = char_of (n + 32)"
      unfolding lower_char_def Let_def n_def [symmetric] by (simp only: True if_True)
    ultimately show ?thesis by (simp add: n_def)
  next
    case False
    with n have "lower_code_point n = [n]"
      unfolding lower_code_point_def by simp
    moreover have "lower_char c = c"
      unfolding lower_char_def Let_def n_def [symmetric] by (simp only: False if_False)
    ultimately show ?thesis by (simp add: n_def)
  qed
qed

lemma lower_u_u: "lower_u (u t) = u (lower t)"
  by (induction t) (simp_all add: lower_u_def u_def lower_def lower_code_point_of_char)

lemma length_section_u_sim: "concat (length_section_u cl) = u (concat (length_section cl))"
  by (cases cl) (simp_all only: length_section_u_def length_section_def option.case concat.simps
        append_Nil2 u_append u_Nil if_distrib [of u] append_assoc)

lemma recognised_sim:
  "lower_u (u t) \<in> set [u ''markdown'', u ''json'', u ''xml'', u ''html'', u ''code''] \<longleftrightarrow>
   lower t \<in> set [''markdown'', ''json'', ''xml'', ''html'', ''code'']"
  by (simp only: lower_u_u list.set insert_iff empty_iff u_eq_iff)

lemma type_section_u_sim:
  "concat (type_section_u (map_option u ct)) = u (concat (type_section ct))"
proof (cases ct)
  case None
  then show ?thesis by (simp only: type_section_u_def type_section_def option.map option.case concat.simps u_Nil)
next
  case (Some t)
  show ?thesis
    unfolding Some type_section_u_def type_section_def option.map option.case recognised_sim
    by (cases "lower t \<in> set [''markdown'', ''json'', ''xml'', ''html'', ''code'']")
       (simp_all only: if_True if_False concat.simps append_Nil2 u_append append_assoc)
qed

lemma structure_section_u_sim:
  "concat (structure_section_u (map_option u cs)) = u (concat (structure_section cs))"
  by (cases cs) (simp_all only: structure_section_u_def structure_section_def option.map option.case
        concat.simps append_Nil2 u_append u_Nil append_assoc)

lemma preview_section_u_sim:
  "concat (preview_section_u (map_option u cp)) = u (concat (preview_section cp))"
  by (cases cp) (simp_all only: preview_section_u_def preview_section_def option.map option.case
        concat.simps append_Nil2 u_append u_Nil u_take append_assoc)

lemma context_info_u_sim:
  "context_info_u (map_option u ct) cl (map_option u cs) (map_option u cp) =
     u (context_info ct cl cs cp)"
  by (simp only: context_info_u_sections context_info_sections u_append length_section_u_sim
        type_section_u_sim structure_section_u_sim preview_section_u_sim)

lemma supplied_u: "supplied (map_option u a) = u (supplied a)"
  by (cases a) (simp_all add: supplied_def u_Nil)

lemma newline_u: "CHR ''\<newline>'' \<notin> set q \<Longrightarrow> 10 \<notin> set (u q)"
proof
  assume q: "CHR ''\<newline>'' \<notin> set q" and "10 \<in> set (u q)"
  then obtain c where c: "c \<in> set q" "(of_char c :: nat) = 10" by (auto simp: u_def)
  then have "(of_char c :: nat) = of_char CHR ''\<newline>''" by simp
  then have "c = CHR ''\<newline>''" by (simp only: of_char_eq_iff)
  with c q show False by simp
qed

lemma strategy_text_in_addendum:
  assumes q: "CHR ''\<newline>'' \<notin> set q"
  shows "sublist (''Strategy '' @ q) (context_info ct cl cs cp) \<longleftrightarrow>
     (\<exists>n. cl = Some n \<and>
        prefix q (if n < 500000 then ''1 (Direct processing)\<newline>''
                  else if n < 2000000 then ''2 (Chunk and aggregate)\<newline>''
                  else ''3 (Targeted search)\<newline>''))
     \<or> (\<exists>t. ct = Some t \<and>
        lower t \<in> set [''markdown'', ''json'', ''xml'', ''html'', ''code''] \<and>
        prefix q ''4 (Structure-aware chunking)\<newline>'')
     \<or> sublist (''Strategy '' @ q) (supplied ct)
     \<or> sublist (''Strategy '' @ q) (supplied cs)
     \<or> sublist (''Strategy '' @ q) (take 500 (supplied cp))"
proof -
  have e: "sublist (''Strategy '' @ q) (context_info ct cl cs cp) \<longleftrightarrow>
      sublist (u ''Strategy '' @ u q) (context_info_u (map_option u ct) cl (map_option u cs) (map_option u cp))"
    by (simp only: context_info_u_sim u_append [symmetric] sublist_u)
  have t: "(\<exists>t. map_option u ct = Some t \<and>
        lower_u t \<in> set [u ''markdown'', u ''json'', u ''xml'', u ''html'', u ''code''] \<and>
        prefix (u q) (u ''4 (Structure-aware chunking)\<newline>'')) \<longleftrightarrow>
      (\<exists>t. ct = Some t \<and>
        lower t \<in> set [''markdown'', ''json'', ''xml'', ''html'', ''code''] \<and>
        prefix q ''4 (Structure-aware chunking)\<newline>'')"
    by (cases ct) (simp_all only: option.map option.distinct option.inject simp_thms ex_simps
          recognised_sim prefix_u)
  have l: "prefix (u q) (if n < 500000 then u ''1 (Direct processing)\<newline>''
                  else if n < 2000000 then u ''2 (Chunk and aggregate)\<newline>''
                  else u ''3 (Targeted search)\<newline>'') \<longleftrightarrow>
        prefix q (if n < 500000 then ''1 (Direct processing)\<newline>''
                  else if n < 2000000 then ''2 (Chunk and aggregate)\<newline>''
                  else ''3 (Targeted search)\<newline>'')" for n :: int
    by (simp only: if_distrib [of u, symmetric] prefix_u)
  have s: "sublist (u ''Strategy '' @ u q) (supplied (map_option u a)) \<longleftrightarrow>
      sublist (''Strategy '' @ q) (supplied a)" for a
    by (simp only: supplied_u u_append [symmetric] sublist_u)
  have p: "sublist (u ''Strategy '' @ u q) (take 500 (supplied (map_option u a))) \<longleftrightarrow>
      sublist (''Strategy '' @ q) (take 500 (supplied a))" for a
    by (simp only: supplied_u u_take u_append [symmetric] sublist_u)
  show ?thesis
    unfolding e pat_in_addendum [OF newline_u [OF q]] t l s p by (rule refl)
qed

lemma strategy_1_text:
  "sublist ''Strategy 1 (Direct processing)'' (context_info ct cl cs cp) \<longleftrightarrow>
     (\<exists>n. cl = Some n \<and> n < 500000)
     \<or> sublist ''Strategy 1 (Direct processing)'' (supplied ct)
     \<or> sublist ''Strategy 1 (Direct processing)'' (supplied cs)
     \<or> sublist ''Strategy 1 (Direct processing)'' (take 500 (supplied cp))"
proof -
  have q: "CHR ''\<newline>'' \<notin> set ''1 (Direct processing)''" by simp
  have l: "prefix ''1 (Direct processing)''
        (if n < 500000 then ''1 (Direct processing)\<newline>''
         else if n < 2000000 then ''2 (Chunk and aggregate)\<newline>''
         else ''3 (Targeted search)\<newline>'') \<longleftrightarrow> n < 500000" for n :: int
    by simp
  have t: "\<not> prefix ''1 (Direct processing)'' ''4 (Structure-aware chunking)\<newline>''" by simp
  have a: "''Strategy '' @ ''1 (Direct processing)'' = ''Strategy 1 (Direct processing)''" by simp
  show ?thesis
    using strategy_text_in_addendum [OF q, of ct cl cs cp] unfolding l a by (simp only: t simp_thms)
qed

lemma strategy_2_text:
  "sublist ''Strategy 2 (Chunk and aggregate)'' (context_info ct cl cs cp) \<longleftrightarrow>
     (\<exists>n. cl = Some n \<and> 500000 \<le> n \<and> n < 2000000)
     \<or> sublist ''Strategy 2 (Chunk and aggregate)'' (supplied ct)
     \<or> sublist ''Strategy 2 (Chunk and aggregate)'' (supplied cs)
     \<or> sublist ''Strategy 2 (Chunk and aggregate)'' (take 500 (supplied cp))"
proof -
  have q: "CHR ''\<newline>'' \<notin> set ''2 (Chunk and aggregate)''" by simp
  have l: "prefix ''2 (Chunk and aggregate)''
        (if n < 500000 then ''1 (Direct processing)\<newline>''
         else if n < 2000000 then ''2 (Chunk and aggregate)\<newline>''
         else ''3 (Targeted search)\<newline>'') \<longleftrightarrow> 500000 \<le> n \<and> n < 2000000" for n :: int
    by simp
  have t: "\<not> prefix ''2 (Chunk and aggregate)'' ''4 (Structure-aware chunking)\<newline>''" by simp
  have a: "''Strategy '' @ ''2 (Chunk and aggregate)'' = ''Strategy 2 (Chunk and aggregate)''" by simp
  show ?thesis
    using strategy_text_in_addendum [OF q, of ct cl cs cp] unfolding l a by (simp only: t simp_thms)
qed

lemma strategy_3_text:
  "sublist ''Strategy 3 (Targeted search)'' (context_info ct cl cs cp) \<longleftrightarrow>
     (\<exists>n. cl = Some n \<and> 2000000 \<le> n)
     \<or> sublist ''Strategy 3 (Targeted search)'' (supplied ct)
     \<or> sublist ''Strategy 3 (Targeted search)'' (supplied cs)
     \<or> sublist ''Strategy 3 (Targeted search)'' (take 500 (supplied cp))"
proof -
  have q: "CHR ''\<newline>'' \<notin> set ''3 (Targeted search)''" by simp
  have l: "prefix ''3 (Targeted search)''
        (if n < 500000 then ''1 (Direct processing)\<newline>''
         else if n < 2000000 then ''2 (Chunk and aggregate)\<newline>''
         else ''3 (Targeted search)\<newline>'') \<longleftrightarrow> 2000000 \<le> n" for n :: int
    by simp
  have t: "\<not> prefix ''3 (Targeted search)'' ''4 (Structure-aware chunking)\<newline>''" by simp
  have a: "''Strategy '' @ ''3 (Targeted search)'' = ''Strategy 3 (Targeted search)''" by simp
  show ?thesis
    using strategy_text_in_addendum [OF q, of ct cl cs cp] unfolding l a by (simp only: t simp_thms)
qed

lemma count_present_3:
  "count_present [a, b, c] x =
     (if sublist a x then 1 else 0) + (if sublist b x then 1 else 0) + (if sublist c x then 1 else 0)"
  by (simp add: count_present_def)

lemma count_length_recommendations:
  assumes "\<forall>x \<in> set length_recommendations.
       \<not> sublist x (supplied ct) \<and> \<not> sublist x (supplied cs) \<and> \<not> sublist x (take 500 (supplied cp))"
  shows "count_present length_recommendations (context_info ct cl cs cp) = (if cl = None then 0 else 1)"
proof -
  from assms have
    1: "sublist ''Strategy 1 (Direct processing)'' (context_info ct cl cs cp) \<longleftrightarrow>
        (\<exists>n. cl = Some n \<and> n < 500000)" and
    2: "sublist ''Strategy 2 (Chunk and aggregate)'' (context_info ct cl cs cp) \<longleftrightarrow>
        (\<exists>n. cl = Some n \<and> 500000 \<le> n \<and> n < 2000000)" and
    3: "sublist ''Strategy 3 (Targeted search)'' (context_info ct cl cs cp) \<longleftrightarrow>
        (\<exists>n. cl = Some n \<and> 2000000 \<le> n)"
    unfolding length_recommendations_def
    by (simp_all only: strategy_1_text strategy_2_text strategy_3_text list.set ball_simps
          insert_iff empty_iff simp_thms)
  show ?thesis
    unfolding length_recommendations_def count_present_3 1 2 3
    by (cases cl) auto
qed

text \<open>
  \<^bold>\<open>Claim C9, as amended.\<close> Among the strings \<^verbatim>\<open>get_system_prompt_with_context\<close>
  appends, exactly one is one of the three length-based recommendation lines when
  \<^verbatim>\<open>context_length\<close> is supplied, and none is when it is \<^verbatim>\<open>None\<close>. The addendum contains
  the text of the Strategy 1 recommendation exactly when a length below 500000 is supplied
  or one of the supplied strings (the context type, the context structure, the first 500
  characters of the preview) contains that text itself; likewise for Strategy 2 with a
  length from 500000 up to 1999999, and for Strategy 3 with a length of at least 2000000.
  So when no supplied string contains one of the three texts, the addendum contains exactly
  one of them when a length is supplied and none without a length. The witness is
  \<^verbatim>\<open>context_type="code"\<close> with \<^verbatim>\<open>context_preview="def f(x): pass"\<close>, once with the length
  100 and once without a length.
\<close>

theorem length_recommendations_exclusive:
  "length (filter (\<lambda>l. l \<in> set [''  - *Recommended Strategy*: Strategy 1 (Direct processing)\<newline>'',
                          ''  - *Recommended Strategy*: Strategy 2 (Chunk and aggregate)\<newline>'',
                          ''  - *Recommended Strategy*: Strategy 3 (Targeted search)\<newline>''])
     (context_info_appends ct cl cs cp)) = (if cl = None then 0 else 1)
   \<and> (sublist ''Strategy 1 (Direct processing)'' (context_info ct cl cs cp) \<longleftrightarrow>
        (\<exists>n. cl = Some n \<and> n < 500000)
        \<or> sublist ''Strategy 1 (Direct processing)'' (supplied ct)
        \<or> sublist ''Strategy 1 (Direct processing)'' (supplied cs)
        \<or> sublist ''Strategy 1 (Direct processing)'' (take 500 (supplied cp)))
   \<and> (sublist ''Strategy 2 (Chunk and aggregate)'' (context_info ct cl cs cp) \<longleftrightarrow>
        (\<exists>n. cl = Some n \<and> 500000 \<le> n \<and> n < 2000000)
        \<or> sublist ''Strategy 2 (Chunk and aggregate)'' (supplied ct)
        \<or> sublist ''Strategy 2 (Chunk and aggregate)'' (supplied cs)
        \<or> sublist ''Strategy 2 (Chunk and aggregate)'' (take 500 (supplied cp)))
   \<and> (sublist ''Strategy 3 (Targeted search)'' (context_info ct cl cs cp) \<longleftrightarrow>
        (\<exists>n. cl = Some n \<and> 2000000 \<le> n)
        \<or> sublist ''Strategy 3 (Targeted search)'' (supplied ct)
        \<or> sublist ''Strategy 3 (Targeted search)'' (supplied cs)
        \<or> sublist ''Strategy 3 (Targeted search)'' (take 500 (supplied cp)))
   \<and> ((\<forall>x \<in> set length_recommendations.
          \<not> sublist x (supplied ct) \<and> \<not> sublist x (supplied cs)
          \<and> \<not> sublist x (take 500 (supplied cp))) \<longrightarrow>
        count_present length_recommendations (context_info ct cl cs cp)
          = (if cl = None then 0 else 1))"
  by (intro conjI impI, rule count_length_lines, rule strategy_1_text, rule strategy_2_text,
      rule strategy_3_text, rule count_length_recommendations)

theorem length_recommendations_exclusive_witness:
  "count_present length_recommendations
     (context_info (Some ''code'') (Some 100) None (Some ''def f(x): pass'')) = 1
   \<and> count_present length_recommendations
     (context_info (Some ''code'') None None (Some ''def f(x): pass'')) = 0"
proof -
  have h: "\<forall>x \<in> set length_recommendations.
      \<not> sublist x (supplied (Some ''code'')) \<and> \<not> sublist x (supplied None)
      \<and> \<not> sublist x (take 500 (supplied (Some ''def f(x): pass'')))"
    by (simp add: length_recommendations_def supplied_def sublist_Cons_right)
  from length_recommendations_exclusive
         [of "Some ''code''" "Some 100" None "Some ''def f(x): pass''"]
       length_recommendations_exclusive
         [of "Some ''code''" None None "Some ''def f(x): pass''"] h
  show ?thesis by simp
qed

text \<open>
  \<^bold>\<open>Claim C9 as stated fails.\<close> The supplied strings are copied into the addendum as they
  are, so they can carry a recommendation line of their own. Without a context length, a
  context structure that holds the Strategy 1 line puts that line into the addendum; with
  the context length 100, a context structure that holds the Strategy 2 line gives an
  addendum with both the Strategy 1 and the Strategy 2 line.
\<close>

theorem injected_recommendation_counterexample:
  "sublist ''  - *Recommended Strategy*: Strategy 1 (Direct processing)\<newline>''
     (context_info None None
        (Some ''x\<newline>  - *Recommended Strategy*: Strategy 1 (Direct processing)'') None)
   \<and> sublist ''  - *Recommended Strategy*: Strategy 1 (Direct processing)\<newline>''
     (context_info None (Some 100)
        (Some ''x\<newline>  - *Recommended Strategy*: Strategy 2 (Chunk and aggregate)'') None)
   \<and> sublist ''  - *Recommended Strategy*: Strategy 2 (Chunk and aggregate)\<newline>''
     (context_info None (Some 100)
        (Some ''x\<newline>  - *Recommended Strategy*: Strategy 2 (Chunk and aggregate)'') None)"
  by code_simp

subsection \<open>Recognised context types\<close>











subsection \<open>Errors of calls with arguments of any type\<close>

















lemma bind_arguments_length:
  "bind_arguments ps as kw = Inr vs \<Longrightarrow> length vs = length ps"
proof (induction ps as kw arbitrary: vs rule: bind_arguments.induct)
  case (1 kw)
  then show ?case by simp
next
  case (2 a as kw)
  then show ?case by simp
next
  case (3 p d ps a as kw)
  then show ?case
    by (cases "bind_arguments ps as kw") (auto simp: and_then_def split: if_splits)
next
  case (4 p d ps kw)
  then show ?case
    by (cases "bind_arguments ps [] kw") (auto simp: and_then_def split: option.splits)
qed
















end
